theory Spec2Isabelle
  imports Main
begin

section \<open>JavaScript values and effects\<close>

text \<open>
  An exception is a value: the three constructors are the error classes that occur in
  \<^verbatim>\<open>generation.ts\<close> and \<^verbatim>\<open>keypairUtils.ts\<close>, each with its message. An
  \<^verbatim>\<open>async\<close> function that rejects is modelled as returning \<open>Inl\<close> of the error.
  Writing to the log (\<^verbatim>\<open>elizaLogger\<close>, \<^verbatim>\<open>console\<close>) is not an effect the model
  keeps.
\<close>

datatype error = Error string | TypeError string | ReferenceError string

text \<open>
  A \<open>string\<close> is the UTF-8 encoding of a JavaScript string, a list of bytes.
  \<^verbatim>\<open>String.prototype.trim\<close> removes from both ends the white space and the line
  terminators of ECMAScript: U+0009 to U+000D, U+0020, U+00A0, U+1680, U+2000 to U+200A,
  U+2028, U+2029, U+202F, U+205F, U+3000 and U+FEFF. \<open>spaces\<close> lists their encodings,
  in that order; \<open>strip_left ws s\<close> removes members of \<open>ws\<close> from the front of \<open>s\<close>
  for as long as one of them is a prefix.
\<close>

definition spaces :: "string list" where
  "spaces =
     [[CHR 0x09], [CHR 0x0A], [CHR 0x0B], [CHR 0x0C], [CHR 0x0D], [CHR 0x20],
      [CHR 0xC2, CHR 0xA0], [CHR 0xE1, CHR 0x9A, CHR 0x80],
      [CHR 0xE2, CHR 0x80, CHR 0x80], [CHR 0xE2, CHR 0x80, CHR 0x81],
      [CHR 0xE2, CHR 0x80, CHR 0x82], [CHR 0xE2, CHR 0x80, CHR 0x83],
      [CHR 0xE2, CHR 0x80, CHR 0x84], [CHR 0xE2, CHR 0x80, CHR 0x85],
      [CHR 0xE2, CHR 0x80, CHR 0x86], [CHR 0xE2, CHR 0x80, CHR 0x87],
      [CHR 0xE2, CHR 0x80, CHR 0x88], [CHR 0xE2, CHR 0x80, CHR 0x89],
      [CHR 0xE2, CHR 0x80, CHR 0x8A], [CHR 0xE2, CHR 0x80, CHR 0xA8],
      [CHR 0xE2, CHR 0x80, CHR 0xA9], [CHR 0xE2, CHR 0x80, CHR 0xAF],
      [CHR 0xE2, CHR 0x81, CHR 0x9F], [CHR 0xE3, CHR 0x80, CHR 0x80],
      [CHR 0xEF, CHR 0xBB, CHR 0xBF]]"

function strip_left :: "string list \<Rightarrow> string \<Rightarrow> string" where
  "strip_left ws s =
     (case find (\<lambda>w. w \<noteq> [] \<and> take (length w) s = w) ws of
        None \<Rightarrow> s
      | Some w \<Rightarrow> strip_left ws (drop (length w) s))"
  by pat_completeness auto
termination
proof (relation "measure (\<lambda>(ws, s). length s)")
  show "wf (measure (\<lambda>(ws, s). length s))" by simp
next
  fix ws :: "string list" and s w :: string
  assume "find (\<lambda>w. w \<noteq> [] \<and> take (length w) s = w) ws = Some w"
  then have "w \<noteq> []" and t: "take (length w) s = w"
    by (auto simp: find_Some_iff)
  from t have "length (take (length w) s) = length w" by simp
  then have "length w \<le> length s" by simp
  with \<open>w \<noteq> []\<close> show "((ws, drop (length w) s), (ws, s)) \<in> measure (\<lambda>(ws, s). length s)"
    by (cases w) simp_all
qed

definition trim :: "string \<Rightarrow> string" where
  "trim s = rev (strip_left (map rev spaces) (rev (strip_left spaces s)))"

text \<open>A value of type \<^verbatim>\<open>any\<close>: what \<^verbatim>\<open>response.json()\<close> or a parser may yield.\<close>

datatype json =
    JNull
  | JBool bool
  | JNum int
  | JStr string
  | JArr "json list"
  | JObj "(string \<times> json) list"

text \<open>
  The effects a caller can observe are kept in a log, oldest first: the outbound calls of
  the text generation call, and the timers of the retry loops with their delay in
  milliseconds. \<open>calls\<close> counts the invocations of \<^verbatim>\<open>generateText\<close>; the
  outcome of the external call made by the \<open>k\<close>-th invocation is a parameter of the model.
\<close>

datatype event =
    AdapterGenerateText string
  | AdapterVerifyProof
  | AiGenerateText string
  | SetTimeout nat

record io =
  calls :: nat
  trace :: "event list"

definition emit :: "event \<Rightarrow> io \<Rightarrow> io" where
  "emit e s = s\<lparr>trace := trace s @ [e]\<rparr>"

definition setTimeout :: "nat \<Rightarrow> io \<Rightarrow> io" where
  "setTimeout delay s = emit (SetTimeout delay) s"

fun sleeps :: "event list \<Rightarrow> nat list" where
  "sleeps [] = []"
| "sleeps (SetTimeout d # es) = d # sleeps es"
| "sleeps (e # es) = sleeps es"

fun provider_requests :: "event list \<Rightarrow> nat" where
  "provider_requests [] = 0"
| "provider_requests (AiGenerateText p # es) = Suc (provider_requests es)"
| "provider_requests (AdapterGenerateText p # es) = Suc (provider_requests es)"
| "provider_requests (e # es) = provider_requests es"

section \<open>The runtime and the external collaborators\<close>

text \<open>
  The provider enumeration of \<^verbatim>\<open>types.ts\<close>, with the members that
  \<^verbatim>\<open>generation.ts\<close> names; every other member is \<open>OTHER\<close> with its name.
\<close>

datatype ModelProviderName =
    HEURIST | TOGETHER | LLAMACLOUD | FAL | OPENAI | VENICE | NINETEEN_AI | LIVEPEER
  | OTHER string

datatype ServiceType = IMAGE_DESCRIPTION | OTHER_SERVICE string

record VerifiableInferenceResult =
  result_text :: string
  result_proof :: string

text \<open>
  The adapter's two methods are outbound calls: each either raises or returns. The first
  argument is the number of the \<^verbatim>\<open>generateText\<close> invocation that makes the call.
\<close>

record IVerifiableInferenceAdapter =
  adapter_generateText :: "nat \<Rightarrow> string \<Rightarrow> error + VerifiableInferenceResult"
  adapter_verifyProof :: "nat \<Rightarrow> VerifiableInferenceResult \<Rightarrow> error + bool"

record ImageDescription =
  title :: string
  description :: string

record IImageDescriptionService =
  describeImage :: "string \<Rightarrow> error + ImageDescription"

record IAgentRuntime =
  modelProvider :: ModelProviderName
  imageModelProvider :: ModelProviderName
  token :: "string option"
  getSetting :: "string \<Rightarrow> string option"
  verifiableInferenceAdapter :: "IVerifiableInferenceAdapter option"
  getService :: "ServiceType \<Rightarrow> IImageDescriptionService option"

text \<open>
  What the module takes from outside: the process environment, the provider SDK call
  \<^verbatim>\<open>aiGenerateText\<close> (its outcome at the \<open>k\<close>-th invocation, for the prompt sent), and
  the five parsers of \<^verbatim>\<open>parsing.ts\<close>, pure functions that yield \<^verbatim>\<open>null\<close> on
  failure. \<open>modelSettings\<close> is what evaluating the identifier of that name yields on line
  610 of \<^verbatim>\<open>generation.ts\<close>: a value with its \<^verbatim>\<open>stop\<close> list, or an error.
\<close>

datatype respond = RESPOND | IGNORE | STOP

record ModelSettings =
  stop :: "string list option"

record env =
  VERIFIABLE_INFERENCE_ENABLED :: "string option"
  aiGenerateText :: "nat \<Rightarrow> string \<Rightarrow> error + string"
  modelSettings :: "error + ModelSettings"
  parseShouldRespondFromText :: "string \<Rightarrow> respond option"
  parseBooleanFromText :: "string \<Rightarrow> bool option"
  parseJsonArrayFromText :: "string \<Rightarrow> json list option"
  parseJSONObjectFromText :: "string \<Rightarrow> (string \<times> json) list option"
  parseActionResponseFromText :: "string \<Rightarrow> (string \<times> json) list option"

section \<open>The text generation call\<close>

text \<open>
  \<^verbatim>\<open>generateText\<close>, lines 333 to 479. An empty context returns the empty string at
  once (line 357). With verifiable inference requested (the parameter, whose default is
  the environment flag) and an adapter on the runtime, the adapter generates and its
  proof is verified; any error there is logged and raised again (lines 371 to 396).
  Otherwise one request goes to the provider, and its error, if any, is logged and
  raised again (lines 430 to 478).
\<close>

definition verifiable_generateText ::
  "IVerifiableInferenceAdapter \<Rightarrow> nat \<Rightarrow> string \<Rightarrow> io \<Rightarrow> (error + string) \<times> io" where
  "verifiable_generateText adapter k context s =
     (let s1 = emit (AdapterGenerateText context) s in
      case adapter_generateText adapter k context of
        Inl err \<Rightarrow> (Inl err, s1)
      | Inr result \<Rightarrow>
          (let s2 = emit AdapterVerifyProof s1 in
           case adapter_verifyProof adapter k result of
             Inl err \<Rightarrow> (Inl err, s2)
           | Inr isValid \<Rightarrow>
               if \<not> isValid then (Inl (Error ''Failed to verify inference proof''), s2)
               else (Inr (result_text result), s2)))"

definition provider_generateText ::
  "env \<Rightarrow> nat \<Rightarrow> string \<Rightarrow> io \<Rightarrow> (error + string) \<times> io" where
  "provider_generateText env k context s =
     (let s1 = emit (AiGenerateText context) s in
      case aiGenerateText env k context of
        Inl err \<Rightarrow> (Inl err, s1)
      | Inr response_text \<Rightarrow> (Inr response_text, s1))"

definition generateText ::
  "env \<Rightarrow> IAgentRuntime \<Rightarrow> string \<Rightarrow> bool option \<Rightarrow> io \<Rightarrow> (error + string) \<times> io" where
  "generateText env runtime context verifiableInferenceArg s0 =
     (let k = calls s0;
          s = s0\<lparr>calls := Suc k\<rparr>;
          verifiableInference =
            (case verifiableInferenceArg of
               None \<Rightarrow> VERIFIABLE_INFERENCE_ENABLED env = Some ''true''
             | Some b \<Rightarrow> b)
      in if context = [] then (Inr [], s)
         else
           (case (if verifiableInference then verifiableInferenceAdapter runtime else None) of
              Some adapter \<Rightarrow> verifiable_generateText adapter k context s
            | None \<Rightarrow> provider_generateText env k context s))"

section \<open>The retrying generators\<close>

text \<open>
  The loop that \<^verbatim>\<open>generateShouldRespond\<close> (lines 508 to 543),
  \<^verbatim>\<open>generateTrueOrFalse\<close> (613 to 632), \<^verbatim>\<open>generateTextArray\<close> (669 to 687),
  \<^verbatim>\<open>generateObjectArray\<close> (727 to 745) and \<^verbatim>\<open>generateTweetActions\<close> (1329 to
  1360) each write out: call the text generation, parse, return a parsed value that is
  not \<^verbatim>\<open>null\<close>; on \<^verbatim>\<open>null\<close> or on an exception (caught and logged) wait
  \<open>retryDelay\<close> milliseconds, double it, and go round again. The loop has no exit but
  the \<^verbatim>\<open>return\<close>: a run that never returns has the value \<open>None\<close>. \<open>retryDelay\<close> is
  a natural number: doubling a power of two times 1000 is exact in a JavaScript number up
  to about \<open>2 ^ 1000\<close>.
\<close>

partial_function (option) retry_loop ::
  "env \<Rightarrow> IAgentRuntime \<Rightarrow> string \<Rightarrow> (string \<Rightarrow> 'a option) \<Rightarrow> nat \<Rightarrow> io
     \<Rightarrow> ((error + 'a) \<times> io) option" where
  "retry_loop env runtime context parse retryDelay s =
     (case generateText env runtime context None s of
        (Inr response, s1) \<Rightarrow>
          (case parse response of
             Some parsedResponse \<Rightarrow> Some (Inr parsedResponse, s1)
           | None \<Rightarrow>
               retry_loop env runtime context parse (retryDelay * 2) (setTimeout retryDelay s1))
      | (Inl err, s1) \<Rightarrow>
          retry_loop env runtime context parse (retryDelay * 2) (setTimeout retryDelay s1))"

declare retry_loop.simps [code]

definition generateShouldRespond ::
  "env \<Rightarrow> IAgentRuntime \<Rightarrow> string \<Rightarrow> io \<Rightarrow> ((error + respond) \<times> io) option" where
  "generateShouldRespond env runtime context s =
     retry_loop env runtime context
       (\<lambda>response. parseShouldRespondFromText env (trim response)) 1000 s"

text \<open>
  \<^verbatim>\<open>generateTrueOrFalse\<close> evaluates \<^verbatim>\<open>modelSettings.stop\<close> on line 610, before the
  loop and outside every \<^verbatim>\<open>try\<close>: an error there leaves the function.
\<close>

definition generateTrueOrFalse ::
  "env \<Rightarrow> IAgentRuntime \<Rightarrow> string \<Rightarrow> io \<Rightarrow> ((error + bool) \<times> io) option" where
  "generateTrueOrFalse env runtime context s =
     (case modelSettings env of
        Inl err \<Rightarrow> Some (Inl err, s)
      | Inr settings \<Rightarrow>
          retry_loop env runtime context
            (\<lambda>response. parseBooleanFromText env (trim response)) 1000 s)"

definition generateTextArray ::
  "env \<Rightarrow> IAgentRuntime \<Rightarrow> string \<Rightarrow> io \<Rightarrow> ((error + json list) \<times> io) option" where
  "generateTextArray env runtime context s =
     (if context = [] then Some (Inr [], s)
      else retry_loop env runtime context (parseJsonArrayFromText env) 1000 s)"

definition generateObjectArray ::
  "env \<Rightarrow> IAgentRuntime \<Rightarrow> string \<Rightarrow> io \<Rightarrow> ((error + json list) \<times> io) option" where
  "generateObjectArray env runtime context s =
     (if context = [] then Some (Inr [], s)
      else retry_loop env runtime context (parseJsonArrayFromText env) 1000 s)"

definition generateTweetActions ::
  "env \<Rightarrow> IAgentRuntime \<Rightarrow> string \<Rightarrow> io
     \<Rightarrow> ((error + (string \<times> json) list) \<times> io) option" where
  "generateTweetActions env runtime context s =
     retry_loop env runtime context
       (\<lambda>response. parseActionResponseFromText env (trim response)) 1000 s"

text \<open>
  \<^verbatim>\<open>generateMessageResponse\<close>, lines 775 to 801, has a loop of its own: a response
  that does not parse goes round again at once (\<^verbatim>\<open>continue\<close>, line 790), and an
  exception doubles \<open>retryLength\<close> first and then waits that long (lines 797 and 798).
  There is no test of the context before the loop.
\<close>

partial_function (option) generateMessageResponse_loop ::
  "env \<Rightarrow> IAgentRuntime \<Rightarrow> string \<Rightarrow> nat \<Rightarrow> io
     \<Rightarrow> ((error + (string \<times> json) list) \<times> io) option" where
  "generateMessageResponse_loop env runtime context retryLength s =
     (case generateText env runtime context None s of
        (Inr response, s1) \<Rightarrow>
          (case parseJSONObjectFromText env response of
             None \<Rightarrow> generateMessageResponse_loop env runtime context retryLength s1
           | Some parsedContent \<Rightarrow> Some (Inr parsedContent, s1))
      | (Inl err, s1) \<Rightarrow>
          generateMessageResponse_loop env runtime context (retryLength * 2)
            (setTimeout (retryLength * 2) s1))"

declare generateMessageResponse_loop.simps [code]

definition generateMessageResponse ::
  "env \<Rightarrow> IAgentRuntime \<Rightarrow> string \<Rightarrow> io
     \<Rightarrow> ((error + (string \<times> json) list) \<times> io) option" where
  "generateMessageResponse env runtime context s =
     generateMessageResponse_loop env runtime context 1000 s"

section \<open>Computations with errors and an effect log\<close>

text \<open>
  The image dispatcher, the caption generator and the wallet utility are sequences of
  fallible steps with \<^verbatim>\<open>try\<close> blocks. A computation takes the log of the outbound
  calls made so far and returns its outcome, a raised error or a value, with the log
  extended.
\<close>

datatype http_method = GET | POST

record fetch_request =
  req_method :: http_method
  req_url :: string
  req_authorization :: "string option"

record together_request =
  tg_apiKey :: "string option"
  tg_model :: string
  tg_prompt :: string
  tg_width :: int
  tg_height :: int
  tg_steps :: nat
  tg_n :: "nat option"

record openai_request =
  oa_apiKey :: string
  oa_model :: string
  oa_prompt :: string
  oa_size :: string
  oa_n :: "nat option"

datatype effect =
    Fetch fetch_request
  | TogetherImagesCreate together_request
  | FalSubscribe string
  | OpenAIImagesGenerate openai_request
  | DescribeImage string
  | GetSetting string

type_synonym 'a js = "effect list \<Rightarrow> (error + 'a) \<times> effect list"

definition returnE :: "'a \<Rightarrow> 'a js" where
  "returnE x = (\<lambda>s. (Inr x, s))"

definition throwE :: "error \<Rightarrow> 'a js" where
  "throwE e = (\<lambda>s. (Inl e, s))"

definition liftE :: "error + 'a \<Rightarrow> 'a js" where
  "liftE r = (\<lambda>s. (r, s))"

definition perform :: "effect \<Rightarrow> error + 'a \<Rightarrow> 'a js" where
  "perform ev outcome = (\<lambda>s. (outcome, s @ [ev]))"

definition bindE :: "'a js \<Rightarrow> ('a \<Rightarrow> 'b js) \<Rightarrow> 'b js" where
  "bindE m f = (\<lambda>s. case m s of (Inl e, s') \<Rightarrow> (Inl e, s') | (Inr x, s') \<Rightarrow> f x s')"

definition catchE :: "'a js \<Rightarrow> (error \<Rightarrow> 'a js) \<Rightarrow> 'a js" where
  "catchE m handler = (\<lambda>s. case m s of (Inl e, s') \<Rightarrow> handler e s' | (Inr x, s') \<Rightarrow> (Inr x, s'))"

text \<open>
  \<^verbatim>\<open>xs.map(f)\<close> with a synchronous callback that may raise: the elements in order,
  stopping at the first error.
\<close>

fun mapE :: "('a \<Rightarrow> 'b js) \<Rightarrow> 'a list \<Rightarrow> 'b list js" where
  "mapE f [] = returnE []"
| "mapE f (x # xs) = bindE (f x) (\<lambda>y. bindE (mapE f xs) (\<lambda>ys. returnE (y # ys)))"

text \<open>
  \<^verbatim>\<open>Promise.all(xs.map(async f))\<close>. \<^verbatim>\<open>map\<close> starts every callback, in the order of
  the elements, and a callback runs up to its first \<^verbatim>\<open>await\<close> before the next one
  starts: each makes its outbound call, whatever becomes of the others. \<open>settle\<close> runs
  them all and keeps, with each outcome, whether the callback ended before any outbound
  call (its promise is then settled when \<^verbatim>\<open>Promise.all\<close> receives it).

  The promise of \<^verbatim>\<open>Promise.all\<close> fulfils with the values, in the order of the
  elements, when every callback returns. Otherwise it rejects with the error of the
  callback that rejected first in time: the first in order of those that raised before
  any outbound call, if there is one, and else the one that the timing of the network
  makes the first, \<open>winner\<close> counting among the callbacks that failed.
\<close>

fun settle :: "('a \<Rightarrow> 'b js) \<Rightarrow> 'a list \<Rightarrow> effect list \<Rightarrow> (bool \<times> (error + 'b)) list \<times> effect list" where
  "settle f [] s = ([], s)"
| "settle f (x # xs) s =
     (case f x s of (r, s1) \<Rightarrow>
        (case settle f xs s1 of (rs, s2) \<Rightarrow> ((s1 = s, r) # rs, s2)))"

fun rejections :: "(bool \<times> (error + 'b)) list \<Rightarrow> (bool \<times> error) list" where
  "rejections [] = []"
| "rejections ((at_once, Inl e) # rs) = (at_once, e) # rejections rs"
| "rejections ((at_once, Inr y) # rs) = rejections rs"

fun fulfilments :: "(bool \<times> (error + 'b)) list \<Rightarrow> 'b list" where
  "fulfilments [] = []"
| "fulfilments ((at_once, Inl e) # rs) = fulfilments rs"
| "fulfilments ((at_once, Inr y) # rs) = y # fulfilments rs"

definition first_rejection :: "nat \<Rightarrow> (bool \<times> error) list \<Rightarrow> error option" where
  "first_rejection winner errs =
     (case filter fst errs of
        (at_once, e) # rest \<Rightarrow> Some e
      | [] \<Rightarrow> (if errs = [] then None else Some (snd (errs ! (winner mod length errs)))))"

definition allE :: "nat \<Rightarrow> ('a \<Rightarrow> 'b js) \<Rightarrow> 'a list \<Rightarrow> 'b list js" where
  "allE winner f xs =
     (\<lambda>s. case settle f xs s of (rs, s') \<Rightarrow>
        (case first_rejection winner (rejections rs) of
           None \<Rightarrow> (Inr (fulfilments rs), s')
         | Some e \<Rightarrow> (Inl e, s')))"

subsection \<open>Operations on values of type \<^verbatim>\<open>any\<close>\<close>

text \<open>
  Reading a property produces \<^verbatim>\<open>undefined\<close> where there is none, so the values a
  computation handles are the JSON values and \<open>undefined\<close> (\<open>None\<close>). Numbers are
  integers here; fractions and \<^verbatim>\<open>NaN\<close> are outside the model.
\<close>

type_synonym any = "json option"

definition truthy :: "any \<Rightarrow> bool" where
  "truthy v =
     (case v of
        None \<Rightarrow> False
      | Some JNull \<Rightarrow> False
      | Some (JBool b) \<Rightarrow> b
      | Some (JNum n) \<Rightarrow> n \<noteq> 0
      | Some (JStr s) \<Rightarrow> s \<noteq> []
      | Some (JArr xs) \<Rightarrow> True
      | Some (JObj kvs) \<Rightarrow> True)"

definition isArray :: "any \<Rightarrow> bool" where
  "isArray v = (case v of Some (JArr xs) \<Rightarrow> True | _ \<Rightarrow> False)"

definition get_prop :: "any \<Rightarrow> string \<Rightarrow> error + any" where
  "get_prop v p =
     (case v of
        None \<Rightarrow> Inl (TypeError (''Cannot read properties of undefined (reading '' @ p @ '')''))
      | Some JNull \<Rightarrow> Inl (TypeError (''Cannot read properties of null (reading '' @ p @ '')''))
      | Some (JObj kvs) \<Rightarrow> Inr (map_of kvs p)
      | Some (JArr xs) \<Rightarrow> Inr (if p = ''length'' then Some (JNum (int (length xs))) else None)
      | Some (JStr s) \<Rightarrow> Inr (if p = ''length'' then Some (JNum (int (length s))) else None)
      | Some _ \<Rightarrow> Inr None)"

text \<open>\<^verbatim>\<open>v.map(...)\<close>: the elements to map over, or the \<^verbatim>\<open>TypeError\<close> of the call.\<close>

definition map_target :: "any \<Rightarrow> error + json list" where
  "map_target v =
     (case v of
        None \<Rightarrow> Inl (TypeError ''Cannot read properties of undefined (reading map)'')
      | Some JNull \<Rightarrow> Inl (TypeError ''Cannot read properties of null (reading map)'')
      | Some (JArr xs) \<Rightarrow> Inr xs
      | Some _ \<Rightarrow> Inl (TypeError ''map is not a function''))"

fun digits :: "nat \<Rightarrow> string" where
  "digits n =
     (if n < 10 then [''0123456789'' ! n]
      else digits (n div 10) @ [''0123456789'' ! (n mod 10)])"

definition show_int :: "int \<Rightarrow> string" where
  "show_int i = (if i < 0 then CHR ''-'' # digits (nat (- i)) else digits (nat i))"

fun join :: "string \<Rightarrow> string list \<Rightarrow> string" where
  "join sep [] = []"
| "join sep [x] = x"
| "join sep (x # xs) = x @ sep @ join sep xs"

text \<open>The string a value becomes inside a template literal.\<close>

fun to_string :: "json \<Rightarrow> string" where
  "to_string JNull = ''null''"
| "to_string (JBool b) = (if b then ''true'' else ''false'')"
| "to_string (JNum n) = show_int n"
| "to_string (JStr s) = s"
| "to_string (JArr xs) = join '','' (map (\<lambda>x. if x = JNull then [] else to_string x) xs)"
| "to_string (JObj kvs) = ''[object Object]''"

definition template :: "any \<Rightarrow> string" where
  "template v = (case v of None \<Rightarrow> ''undefined'' | Some j \<Rightarrow> to_string j)"

fun is_infix :: "string \<Rightarrow> string \<Rightarrow> bool" where
  "is_infix p [] = (p = [])"
| "is_infix p (c # cs) = (take (length p) (c # cs) = p \<or> is_infix p cs)"

text \<open>\<^verbatim>\<open>v.includes(needle)\<close>, defined on strings and on arrays.\<close>

definition js_includes :: "any \<Rightarrow> string \<Rightarrow> error + bool" where
  "js_includes v needle =
     (case v of
        None \<Rightarrow> Inl (TypeError ''Cannot read properties of undefined (reading includes)'')
      | Some JNull \<Rightarrow> Inl (TypeError ''Cannot read properties of null (reading includes)'')
      | Some (JStr s) \<Rightarrow> Inr (is_infix needle s)
      | Some (JArr xs) \<Rightarrow> Inr (JStr needle \<in> set xs)
      | Some _ \<Rightarrow> Inl (TypeError ''includes is not a function''))"

section \<open>The image generation dispatcher\<close>

text \<open>
  The request, with the fields that reach the two SDK calls; the other fields of the
  source only fill the bodies of \<^verbatim>\<open>fetch\<close> requests, which the model leaves out.
\<close>

record ImageRequest =
  prompt :: string
  width :: int
  height :: int
  count :: "nat option"

record ImageResult =
  success :: bool
  data :: "json list option"
  error :: "(string + error) option"

record ImageModelSettings =
  settings_name :: string
  settings_steps :: "nat option"

record Response =
  ok :: bool
  statusText :: string
  response_json :: "error + json"
  response_bytes :: "error + string"

record URL =
  protocol :: string
  href :: string

text \<open>
  The collaborators of the dispatcher: the settings table \<^verbatim>\<open>getImageModelSettings\<close>
  (what its call on line 831 yields: settings, \<^verbatim>\<open>undefined\<close>, or an error),
  \<^verbatim>\<open>fetch\<close>, the three SDK calls, the \<^verbatim>\<open>URL\<close> constructor and
  \<^verbatim>\<open>Buffer.toString("base64")\<close>. Each outbound call raises or returns.
  \<open>first_to_fail\<close> is the timing of the network: among the downloads of one
  \<^verbatim>\<open>Promise.all\<close> that fail, the one that fails first.
\<close>

record image_env =
  getImageModelSettings :: "ModelProviderName \<Rightarrow> error + ImageModelSettings option"
  fetch :: "fetch_request \<Rightarrow> error + Response"
  together_images_create :: "together_request \<Rightarrow> error + any"
  fal_subscribe :: "string \<Rightarrow> error + any"
  openai_images_generate :: "openai_request \<Rightarrow> error + any"
  new_URL :: "string \<Rightarrow> error + URL"
  base64 :: "string \<Rightarrow> string"
  first_to_fail :: nat

definition fetch_call :: "image_env \<Rightarrow> fetch_request \<Rightarrow> Response js" where
  "fetch_call ienv req = perform (Fetch req) (fetch ienv req)"

text \<open>\<^verbatim>\<open>a ?? b\<close> on settings, and \<^verbatim>\<open>!s\<close> on a string that may be \<^verbatim>\<open>null\<close>.\<close>

definition nullish :: "'a option \<Rightarrow> 'a option \<Rightarrow> 'a option" where
  "nullish a b = (case a of None \<Rightarrow> b | Some v \<Rightarrow> Some v)"

definition falsy :: "string option \<Rightarrow> bool" where
  "falsy v = (case v of None \<Rightarrow> True | Some s \<Rightarrow> s = [])"

definition bearer :: "string option \<Rightarrow> string" where
  "bearer apiKey = ''Bearer '' @ (case apiKey of None \<Rightarrow> ''null'' | Some k \<Rightarrow> k)"

text \<open>The credential, lines 841 to 871.\<close>

definition resolveApiKey :: "IAgentRuntime \<Rightarrow> string option" where
  "resolveApiKey runtime =
     (if imageModelProvider runtime = modelProvider runtime then token runtime
      else
        (case imageModelProvider runtime of
           HEURIST \<Rightarrow> getSetting runtime ''HEURIST_API_KEY''
         | TOGETHER \<Rightarrow> getSetting runtime ''TOGETHER_API_KEY''
         | FAL \<Rightarrow> getSetting runtime ''FAL_API_KEY''
         | OPENAI \<Rightarrow> getSetting runtime ''OPENAI_API_KEY''
         | VENICE \<Rightarrow> getSetting runtime ''VENICE_API_KEY''
         | LIVEPEER \<Rightarrow> getSetting runtime ''LIVEPEER_GATEWAY_URL''
         | _ \<Rightarrow>
             nullish (getSetting runtime ''HEURIST_API_KEY'')
               (nullish (getSetting runtime ''NINETEEN_AI_API_KEY'')
                 (nullish (getSetting runtime ''TOGETHER_API_KEY'')
                   (nullish (getSetting runtime ''FAL_API_KEY'')
                     (nullish (getSetting runtime ''OPENAI_API_KEY'')
                       (nullish (getSetting runtime ''VENICE_API_KEY'')
                         (getSetting runtime ''LIVEPEER_GATEWAY_URL''))))))))"

definition succeeded :: "json list \<Rightarrow> ImageResult" where
  "succeeded base64s = \<lparr>success = True, data = Some base64s, error = None\<rparr>"

definition failed :: "string + error \<Rightarrow> ImageResult" where
  "failed e = \<lparr>success = False, data = None, error = Some e\<rparr>"

text \<open>Heurist, lines 873 to 909: the reply's JSON is the only entry of the result.\<close>

definition heurist_branch :: "image_env \<Rightarrow> string option \<Rightarrow> ImageResult js" where
  "heurist_branch ienv apiKey =
     bindE (fetch_call ienv
        \<lparr>req_method = POST, req_url = ''http://sequencer.heurist.xyz/submit_job'',
         req_authorization = Some (bearer apiKey)\<rparr>) (\<lambda>response.
     if \<not> ok response
     then throwE (Error (''Heurist image generation failed: '' @ statusText response))
     else bindE (liftE (response_json response)) (\<lambda>imageURL.
       returnE (succeeded [imageURL])))"

text \<open>Fetching one image and encoding it, as the Together and Livepeer callbacks do.\<close>

definition fetch_jpeg :: "image_env \<Rightarrow> string \<Rightarrow> json js" where
  "fetch_jpeg ienv url =
     bindE (fetch_call ienv \<lparr>req_method = GET, req_url = url, req_authorization = None\<rparr>)
       (\<lambda>imageResponse.
     if \<not> ok imageResponse
     then throwE (Error (''Failed to fetch image: '' @ statusText imageResponse))
     else bindE (liftE (response_bytes imageResponse)) (\<lambda>arrayBuffer.
       returnE (JStr (''data:image/jpeg;base64,'' @ base64 ienv arrayBuffer))))"

text \<open>Together, lines 910 to 967.\<close>

definition together_image :: "image_env \<Rightarrow> json \<Rightarrow> json js" where
  "together_image ienv img =
     bindE (liftE (get_prop (Some img) ''url'')) (\<lambda>url.
     if \<not> truthy url then throwE (Error ''Missing URL in Together AI response'')
     else fetch_jpeg ienv (template url))"

definition together_branch ::
  "image_env \<Rightarrow> string option \<Rightarrow> ImageModelSettings \<Rightarrow> ImageRequest \<Rightarrow> ImageResult js" where
  "together_branch ienv apiKey settings request =
     (let req = \<lparr>tg_apiKey = apiKey, tg_model = settings_name settings,
                 tg_prompt = prompt request, tg_width = width request,
                 tg_height = height request,
                 tg_steps = (case settings_steps settings of None \<Rightarrow> 4 | Some n \<Rightarrow> n),
                 tg_n = count request\<rparr>
      in bindE (perform (TogetherImagesCreate req) (together_images_create ienv req))
           (\<lambda>togetherResponse.
         bindE (liftE (get_prop togetherResponse ''data'')) (\<lambda>d.
         if \<not> truthy d \<or> \<not> isArray d
         then throwE (Error ''Invalid response format from Together AI'')
         else bindE (liftE (map_target d)) (\<lambda>images.
           bindE (allE (first_to_fail ienv) (together_image ienv) images) (\<lambda>base64s.
           if length base64s = 0 then throwE (Error ''No images generated by Together AI'')
           else returnE (succeeded base64s))))))"

text \<open>FAL, lines 968 to 1020.\<close>

definition fal_image :: "image_env \<Rightarrow> json \<Rightarrow> json js" where
  "fal_image ienv img =
     bindE (liftE (get_prop (Some img) ''url'')) (\<lambda>url.
     bindE (fetch_call ienv
        \<lparr>req_method = GET, req_url = template url, req_authorization = None\<rparr>)
       (\<lambda>response.
     bindE (liftE (response_bytes response)) (\<lambda>buffer.
     bindE (liftE (get_prop (Some img) ''content_type'')) (\<lambda>content_type.
       returnE (JStr (''data:'' @ template content_type @ '';base64,'' @ base64 ienv buffer))))))"

definition fal_branch :: "image_env \<Rightarrow> string \<Rightarrow> ImageResult js" where
  "fal_branch ienv model =
     bindE (perform (FalSubscribe model) (fal_subscribe ienv model)) (\<lambda>result.
     bindE (liftE (get_prop result ''data'')) (\<lambda>d.
     bindE (liftE (get_prop d ''images'')) (\<lambda>imgs.
     bindE (liftE (map_target imgs)) (\<lambda>images.
     bindE (allE (first_to_fail ienv) (fal_image ienv) images) (\<lambda>base64s.
       returnE (succeeded base64s))))))"

text \<open>
  Venice (lines 1021 to 1061) and Nineteen AI (1062 to 1100) differ in the address and
  in the provider's name inside the two messages.
\<close>

definition png_entry :: "string \<Rightarrow> json \<Rightarrow> json js" where
  "png_entry provider base64String =
     (if \<not> truthy (Some base64String)
      then throwE (Error (''Empty base64 string in '' @ provider @ '' response''))
      else returnE (JStr (''data:image/png;base64,'' @ to_string base64String)))"

definition png_branch :: "image_env \<Rightarrow> string \<Rightarrow> string \<Rightarrow> string option \<Rightarrow> ImageResult js" where
  "png_branch ienv provider url apiKey =
     bindE (fetch_call ienv
        \<lparr>req_method = POST, req_url = url, req_authorization = Some (bearer apiKey)\<rparr>)
       (\<lambda>response.
     bindE (liftE (response_json response)) (\<lambda>result.
     bindE (liftE (get_prop (Some result) ''images'')) (\<lambda>imgs.
     if \<not> truthy imgs \<or> \<not> isArray imgs
     then throwE (Error (''Invalid response format from '' @ provider))
     else bindE (liftE (map_target imgs)) (\<lambda>images.
       bindE (mapE (png_entry provider) images) (\<lambda>base64s.
       returnE (succeeded base64s))))))"

definition venice_branch :: "image_env \<Rightarrow> string option \<Rightarrow> ImageResult js" where
  "venice_branch ienv apiKey =
     png_branch ienv ''Venice AI'' ''https://api.venice.ai/api/v1/image/generate'' apiKey"

definition nineteen_branch :: "image_env \<Rightarrow> string option \<Rightarrow> ImageResult js" where
  "nineteen_branch ienv apiKey =
     png_branch ienv ''Nineteen AI'' ''https://api.nineteen.ai/v1/text-to-image'' apiKey"

text \<open>
  Livepeer, lines 1101 to 1161. The missing gateway is raised outside the inner
  \<^verbatim>\<open>try\<close>; everything after it is inside, and the inner \<^verbatim>\<open>catch\<close> returns the
  failure itself.
\<close>

definition livepeer_image :: "image_env \<Rightarrow> string \<Rightarrow> json \<Rightarrow> json js" where
  "livepeer_image ienv apiKey img =
     bindE (liftE (get_prop (Some img) ''url'')) (\<lambda>url.
     bindE (liftE (js_includes url ''http'')) (\<lambda>hasHttp.
       fetch_jpeg ienv (if hasHttp then template url else apiKey @ template url)))"

definition livepeer_branch :: "image_env \<Rightarrow> string option \<Rightarrow> ImageResult js" where
  "livepeer_branch ienv apiKey =
     (case apiKey of
        None \<Rightarrow> throwE (Error ''Livepeer Gateway is not defined'')
      | Some key \<Rightarrow>
          if key = [] then throwE (Error ''Livepeer Gateway is not defined'')
          else
            catchE
              (bindE (liftE (new_URL ienv key)) (\<lambda>baseUrl.
               if take 4 (protocol baseUrl) \<noteq> ''http''
               then throwE (Error ''Invalid Livepeer Gateway URL protocol'')
               else
                 bindE (fetch_call ienv
                    \<lparr>req_method = POST, req_url = href baseUrl @ ''text-to-image'',
                     req_authorization = Some ''Bearer eliza-app-img''\<rparr>) (\<lambda>response.
                 bindE (liftE (response_json response)) (\<lambda>result.
                 bindE (liftE (get_prop (Some result) ''images'')) (\<lambda>imgs.
                 bindE (liftE (if imgs = None \<or> imgs = Some JNull then Inr None
                               else get_prop imgs ''length'')) (\<lambda>len.
                 if \<not> truthy len then throwE (Error ''No images generated'')
                 else bindE (liftE (map_target imgs)) (\<lambda>images.
                   bindE (allE (first_to_fail ienv) (livepeer_image ienv key) images)
                     (\<lambda>base64Images.
                   returnE (succeeded base64Images)))))))))
              (\<lambda>err. returnE (failed (Inr err))))"

text \<open>
  The default branch, lines 1162 to 1189: the size is the requested one when it is one of
  the three sizes listed, and \<^verbatim>\<open>1024x1024\<close> otherwise. Width and height are
  integers, printed in decimal as a template literal prints them.
\<close>

definition targetSize :: "ImageRequest \<Rightarrow> string" where
  "targetSize request =
     (let size0 = show_int (width request) @ ''x'' @ show_int (height request)
      in if size0 \<noteq> ''1024x1024'' \<and> size0 \<noteq> ''1792x1024'' \<and> size0 \<noteq> ''1024x1792''
         then ''1024x1024'' else size0)"

definition png_b64_json :: "json \<Rightarrow> json js" where
  "png_b64_json img =
     bindE (liftE (get_prop (Some img) ''b64_json'')) (\<lambda>b64.
       returnE (JStr (''data:image/png;base64,'' @ template b64)))"

definition default_branch ::
  "image_env \<Rightarrow> IAgentRuntime \<Rightarrow> string \<Rightarrow> ImageRequest \<Rightarrow> ImageResult js" where
  "default_branch ienv runtime model request =
     (case getSetting runtime ''OPENAI_API_KEY'' of
        None \<Rightarrow> throwE (Error ''OPENAI_API_KEY is not set'')
      | Some openaiApiKey \<Rightarrow>
          if openaiApiKey = [] then throwE (Error ''OPENAI_API_KEY is not set'')
          else
            (let req = \<lparr>oa_apiKey = openaiApiKey, oa_model = model,
                        oa_prompt = prompt request, oa_size = targetSize request,
                        oa_n = count request\<rparr>
             in bindE (perform (OpenAIImagesGenerate req) (openai_images_generate ienv req))
                  (\<lambda>response.
                bindE (liftE (get_prop response ''data'')) (\<lambda>d.
                bindE (liftE (map_target d)) (\<lambda>images.
                bindE (mapE png_b64_json images) (\<lambda>base64s.
                  returnE (succeeded base64s)))))))"

text \<open>
  \<^verbatim>\<open>generateImage\<close>, lines 807 to 1194. The settings lookup and the credential come
  before the \<^verbatim>\<open>try\<close>; the chain of branches is its body, and its \<^verbatim>\<open>catch\<close>
  turns the error into a result.
\<close>

definition dispatch ::
  "image_env \<Rightarrow> IAgentRuntime \<Rightarrow> ImageModelSettings \<Rightarrow> string option \<Rightarrow> ImageRequest
     \<Rightarrow> ImageResult js" where
  "dispatch ienv runtime settings apiKey request =
     (if imageModelProvider runtime = HEURIST then heurist_branch ienv apiKey
      else if imageModelProvider runtime = TOGETHER \<or> imageModelProvider runtime = LLAMACLOUD
      then together_branch ienv apiKey settings request
      else if imageModelProvider runtime = FAL then fal_branch ienv (settings_name settings)
      else if imageModelProvider runtime = VENICE then venice_branch ienv apiKey
      else if imageModelProvider runtime = NINETEEN_AI then nineteen_branch ienv apiKey
      else if imageModelProvider runtime = LIVEPEER then livepeer_branch ienv apiKey
      else default_branch ienv runtime (settings_name settings) request)"

definition generateImage :: "image_env \<Rightarrow> ImageRequest \<Rightarrow> IAgentRuntime \<Rightarrow> ImageResult js" where
  "generateImage ienv request runtime =
     bindE (liftE (getImageModelSettings ienv (imageModelProvider runtime))) (\<lambda>found.
     case found of
       None \<Rightarrow> returnE (failed (Inl ''No model settings available''))
     | Some settings \<Rightarrow>
         (let apiKey = resolveApiKey runtime
          in catchE (dispatch ienv runtime settings apiKey request)
               (\<lambda>err. returnE (failed (Inr err)))))"

section \<open>The caption generator\<close>

text \<open>\<^verbatim>\<open>generateCaption\<close>, lines 1196 to 1219.\<close>

definition generateCaption :: "string \<Rightarrow> IAgentRuntime \<Rightarrow> ImageDescription js" where
  "generateCaption imageUrl runtime =
     (case getService runtime IMAGE_DESCRIPTION of
        None \<Rightarrow> throwE (Error ''Image description service not found'')
      | Some imageDescriptionService \<Rightarrow>
          bindE (perform (DescribeImage imageUrl)
                   (describeImage imageDescriptionService imageUrl)) (\<lambda>resp.
            returnE \<lparr>title = trim (title resp), description = trim (description resp)\<rparr>))"

section \<open>The wallet key\<close>

text \<open>
  \<^verbatim>\<open>getWalletKey\<close> of \<^verbatim>\<open>keypairUtils.ts\<close>. The decoders and the key constructors
  belong to the \<^verbatim>\<open>bs58\<close> and \<^verbatim>\<open>@solana/web3.js\<close> libraries: \<^verbatim>\<open>bs58.decode\<close>,
  \<^verbatim>\<open>Keypair.fromSecretKey\<close> and \<^verbatim>\<open>new PublicKey\<close> raise on input they reject,
  \<^verbatim>\<open>Buffer.from(s, "base64")\<close> does not raise. Every read of a setting is logged.
\<close>

datatype Keypair = Keypair string
datatype PublicKey = PublicKey string

record KeypairResult =
  keypair :: "Keypair option"
  publicKey :: "PublicKey option"

record wallet_env =
  bs58_decode :: "string \<Rightarrow> error + string"
  base64_decode :: "string \<Rightarrow> string"
  fromSecretKey :: "string \<Rightarrow> error + Keypair"
  new_PublicKey :: "string \<Rightarrow> error + PublicKey"

definition read_setting :: "IAgentRuntime \<Rightarrow> string \<Rightarrow> string option js" where
  "read_setting runtime key = perform (GetSetting key) (Inr (getSetting runtime key))"

definition read_first :: "IAgentRuntime \<Rightarrow> string \<Rightarrow> string \<Rightarrow> string option js" where
  "read_first runtime key1 key2 =
     bindE (read_setting runtime key1) (\<lambda>v.
       case v of None \<Rightarrow> read_setting runtime key2 | Some x \<Rightarrow> returnE (Some x))"

definition getWalletKey :: "wallet_env \<Rightarrow> IAgentRuntime \<Rightarrow> bool \<Rightarrow> KeypairResult js" where
  "getWalletKey wenv runtime requirePrivateKey =
     (if requirePrivateKey then
        bindE (read_first runtime ''SOLANA_PRIVATE_KEY'' ''WALLET_PRIVATE_KEY'')
          (\<lambda>privateKeyString.
        if falsy privateKeyString then throwE (Error ''Private key not found in settings'')
        else
          (let key = (case privateKeyString of None \<Rightarrow> [] | Some k \<Rightarrow> k) in
           catchE
             (bindE (liftE (bs58_decode wenv key)) (\<lambda>secretKey.
              bindE (liftE (fromSecretKey wenv secretKey)) (\<lambda>kp.
                returnE \<lparr>keypair = Some kp, publicKey = None\<rparr>)))
             (\<lambda>e.
                catchE
                  (bindE (liftE (fromSecretKey wenv (base64_decode wenv key))) (\<lambda>kp.
                     returnE \<lparr>keypair = Some kp, publicKey = None\<rparr>))
                  (\<lambda>e2. throwE (Error ''Invalid private key format'')))))
      else
        bindE (read_first runtime ''SOLANA_PUBLIC_KEY'' ''WALLET_PUBLIC_KEY'')
          (\<lambda>publicKeyString.
        if falsy publicKeyString
        then throwE (Error (''Solana Public key not found in settings, but plugin was loaded, ''
                       @ ''please set SOLANA_PUBLIC_KEY''))
        else
          (let key = (case publicKeyString of None \<Rightarrow> [] | Some k \<Rightarrow> k) in
           bindE (liftE (new_PublicKey wenv key)) (\<lambda>pk.
             returnE \<lparr>keypair = None, publicKey = Some pk\<rparr>))))"

section \<open>Vocabulary of the properties\<close>

text \<open>
  The outcome of the \<open>k\<close>-th invocation of the text generation call: what it raises or
  returns does not depend on the log.
\<close>

definition attempt :: "env \<Rightarrow> IAgentRuntime \<Rightarrow> string \<Rightarrow> nat \<Rightarrow> error + string" where
  "attempt env runtime context k =
     fst (generateText env runtime context None \<lparr>calls = k, trace = []\<rparr>)"

text \<open>
  Starting at invocation \<open>k\<close>, the text generation call returns \<open>N\<close> responses that the
  parser rejects and then one that parses to \<open>v\<close>.
\<close>

definition unparseable_then_parsed ::
  "env \<Rightarrow> IAgentRuntime \<Rightarrow> string \<Rightarrow> (string \<Rightarrow> 'a option) \<Rightarrow> nat \<Rightarrow> nat \<Rightarrow> 'a \<Rightarrow> bool" where
  "unparseable_then_parsed env runtime context parse k N v =
     ((\<forall>i<N. \<exists>t. attempt env runtime context (k + i) = Inr t \<and> parse t = None)
      \<and> (\<exists>t. attempt env runtime context (k + N) = Inr t \<and> parse t = Some v))"

text \<open>
  A run from \<open>s\<close> returns \<open>v\<close> after \<open>n\<close> invocations of the text generation call, having
  slept the \<open>delays\<close> in that order.
\<close>

definition returns_after ::
  "((error + 'a) \<times> io) option \<Rightarrow> io \<Rightarrow> 'a \<Rightarrow> nat \<Rightarrow> nat list \<Rightarrow> bool" where
  "returns_after r s v n delays =
     (\<exists>s'. r = Some (Inr v, s') \<and> calls s' = calls s + n
        \<and> sleeps (trace s') = sleeps (trace s) @ delays)"

definition backoff :: "nat \<Rightarrow> nat list" where
  "backoff N = map (\<lambda>i. 1000 * 2 ^ i) [0..<N]"

text \<open>
  \<open>t\<close> is \<open>s\<close> with the surrounding white space removed: \<open>s\<close> is \<open>t\<close> between two runs
  of white space, and \<open>t\<close> neither begins nor ends with white space.
\<close>

definition white_run :: "string \<Rightarrow> bool" where
  "white_run a = (\<exists>cs. set cs \<subseteq> set spaces \<and> a = concat cs)"

definition trimmed_of :: "string \<Rightarrow> string \<Rightarrow> bool" where
  "trimmed_of s t =
     ((\<exists>a b. s = a @ t @ b \<and> white_run a \<and> white_run b)
      \<and> \<not> list_ex (\<lambda>w. take (length w) t = w) spaces
      \<and> \<not> list_ex (\<lambda>w. take (length w) (rev t) = rev w) spaces)"

text \<open>A data URL: \<^verbatim>\<open>data:<mime>;base64,<payload>\<close>.\<close>

definition data_url :: "string \<Rightarrow> string \<Rightarrow> json" where
  "data_url mime payload = JStr (''data:'' @ mime @ '';base64,'' @ payload)"

text \<open>An entry as the claim has it: a data URL with a payload that is not empty.\<close>

definition matches_data_url :: "json \<Rightarrow> bool" where
  "matches_data_url e = (\<exists>mime payload. payload \<noteq> [] \<and> e = data_url mime payload)"

subsection \<open>What the providers send, and the entry made of each image\<close>

text \<open>
  The reply of Heurist to the job: the JSON body of a response whose status is in the
  range of success.
\<close>

definition heurist_reply :: "image_env \<Rightarrow> string option \<Rightarrow> json \<Rightarrow> bool" where
  "heurist_reply ienv apiKey reply =
     (\<exists>response.
        fetch ienv \<lparr>req_method = POST, req_url = ''http://sequencer.heurist.xyz/submit_job'',
                    req_authorization = Some (bearer apiKey)\<rparr> = Inr response
      \<and> ok response \<and> response_json response = Inr reply)"

text \<open>The images that each of the other providers sends for the request.\<close>

definition together_images ::
  "image_env \<Rightarrow> string option \<Rightarrow> ImageModelSettings \<Rightarrow> ImageRequest \<Rightarrow> json list \<Rightarrow> bool" where
  "together_images ienv apiKey settings request images =
     (\<exists>response.
        together_images_create ienv
          \<lparr>tg_apiKey = apiKey, tg_model = settings_name settings,
           tg_prompt = prompt request, tg_width = width request, tg_height = height request,
           tg_steps = (case settings_steps settings of None \<Rightarrow> 4 | Some n \<Rightarrow> n),
           tg_n = count request\<rparr> = Inr response
      \<and> get_prop response ''data'' = Inr (Some (JArr images)))"

definition fal_images :: "image_env \<Rightarrow> string \<Rightarrow> json list \<Rightarrow> bool" where
  "fal_images ienv model images =
     (\<exists>result d.
        fal_subscribe ienv model = Inr result \<and> get_prop result ''data'' = Inr d
      \<and> get_prop d ''images'' = Inr (Some (JArr images)))"

definition posted_images :: "image_env \<Rightarrow> string \<Rightarrow> string \<Rightarrow> json list \<Rightarrow> bool" where
  "posted_images ienv url authorization images =
     (\<exists>response result.
        fetch ienv \<lparr>req_method = POST, req_url = url,
                    req_authorization = Some authorization\<rparr> = Inr response
      \<and> response_json response = Inr result
      \<and> get_prop (Some result) ''images'' = Inr (Some (JArr images)))"

definition livepeer_images :: "image_env \<Rightarrow> string \<Rightarrow> json list \<Rightarrow> bool" where
  "livepeer_images ienv gateway images =
     (\<exists>baseUrl.
        new_URL ienv gateway = Inr baseUrl \<and> take 4 (protocol baseUrl) = ''http''
      \<and> posted_images ienv (href baseUrl @ ''text-to-image'') ''Bearer eliza-app-img'' images)"

definition openai_images ::
  "image_env \<Rightarrow> IAgentRuntime \<Rightarrow> string \<Rightarrow> ImageRequest \<Rightarrow> json list \<Rightarrow> bool" where
  "openai_images ienv runtime model request images =
     (\<exists>openaiApiKey response.
        getSetting runtime ''OPENAI_API_KEY'' = Some openaiApiKey \<and> openaiApiKey \<noteq> []
      \<and> openai_images_generate ienv
          \<lparr>oa_apiKey = openaiApiKey, oa_model = model, oa_prompt = prompt request,
           oa_size = targetSize request, oa_n = count request\<rparr> = Inr response
      \<and> get_prop response ''data'' = Inr (Some (JArr images)))"

text \<open>
  The entry made of the image at an address: the bytes of its download, encoded, as
  \<^verbatim>\<open>image/jpeg\<close>.
\<close>

definition jpeg_of :: "image_env \<Rightarrow> string \<Rightarrow> json \<Rightarrow> bool" where
  "jpeg_of ienv url e =
     (\<exists>response bytes.
        fetch ienv \<lparr>req_method = GET, req_url = url, req_authorization = None\<rparr> = Inr response
      \<and> ok response \<and> response_bytes response = Inr bytes
      \<and> e = data_url ''image/jpeg'' (base64 ienv bytes))"

text \<open>
  The entry made of one image of the provider. Together and Livepeer: the download of
  the image's \<open>url\<close> (for Livepeer behind the gateway, unless the \<open>url\<close> contains
  \<^verbatim>\<open>http\<close>). FAL: the download of the image's \<open>url\<close>, whatever its status, under
  the image's own \<open>content_type\<close>. Venice and Nineteen AI: the image the provider sent,
  which is not falsy, as \<^verbatim>\<open>image/png\<close>; when it is a string, the payload is not empty.
  The default branch: the image's \<open>b64_json\<close> as \<^verbatim>\<open>image/png\<close>.
\<close>

definition together_entry :: "image_env \<Rightarrow> json \<Rightarrow> json \<Rightarrow> bool" where
  "together_entry ienv img e =
     (\<exists>url. get_prop (Some img) ''url'' = Inr url \<and> truthy url \<and> jpeg_of ienv (template url) e)"

definition livepeer_entry :: "image_env \<Rightarrow> string \<Rightarrow> json \<Rightarrow> json \<Rightarrow> bool" where
  "livepeer_entry ienv gateway img e =
     (\<exists>url hasHttp.
        get_prop (Some img) ''url'' = Inr url \<and> js_includes url ''http'' = Inr hasHttp
      \<and> jpeg_of ienv (if hasHttp then template url else gateway @ template url) e)"

definition fal_entry :: "image_env \<Rightarrow> json \<Rightarrow> json \<Rightarrow> bool" where
  "fal_entry ienv img e =
     (\<exists>url response bytes content_type.
        get_prop (Some img) ''url'' = Inr url
      \<and> fetch ienv \<lparr>req_method = GET, req_url = template url, req_authorization = None\<rparr>
          = Inr response
      \<and> response_bytes response = Inr bytes
      \<and> get_prop (Some img) ''content_type'' = Inr content_type
      \<and> e = data_url (template content_type) (base64 ienv bytes))"

definition png_entry_of :: "json \<Rightarrow> json \<Rightarrow> bool" where
  "png_entry_of base64String e =
     (truthy (Some base64String) \<and> e = data_url ''image/png'' (to_string base64String)
      \<and> (\<forall>str. base64String = JStr str \<longrightarrow> matches_data_url e))"

definition default_entry :: "json \<Rightarrow> json \<Rightarrow> bool" where
  "default_entry img e =
     (\<exists>b64. get_prop (Some img) ''b64_json'' = Inr b64 \<and> e = data_url ''image/png'' (template b64))"

subsection \<open>Concrete environments\<close>

text \<open>
  A provider that answers \<^verbatim>\<open>banana\<close> to the first request and \<^verbatim>\<open>ok\<close> to every later
  one, with parsers that accept \<^verbatim>\<open>ok\<close> alone (\<^verbatim>\<open>true\<close> and \<^verbatim>\<open>false\<close> for the
  boolean parser). \<open>modelSettings\<close> is as in \<^verbatim>\<open>generation.ts\<close>, where no declaration
  or import binds the identifier (the declaration on line 608 is commented out): its
  evaluation raises \<^verbatim>\<open>ReferenceError\<close>.
\<close>

definition unbound :: "string \<Rightarrow> error + 'a" where
  "unbound ident = Inl (ReferenceError (ident @ '' is not defined''))"

definition banana_env :: env where
  "banana_env =
     \<lparr>VERIFIABLE_INFERENCE_ENABLED = None,
      aiGenerateText = (\<lambda>k p. if k = 0 then Inr ''banana'' else Inr '' ok ''),
      modelSettings = unbound ''modelSettings'',
      parseShouldRespondFromText = (\<lambda>t. if t = ''ok'' then Some RESPOND else None),
      parseBooleanFromText =
        (\<lambda>t. if t = ''true'' then Some True else if t = ''false'' then Some False else None),
      parseJsonArrayFromText = (\<lambda>t. if t = '' ok '' then Some [JStr ''ok''] else None),
      parseJSONObjectFromText =
        (\<lambda>t. if t = '' ok '' then Some [(''text'', JStr ''ok'')] else None),
      parseActionResponseFromText =
        (\<lambda>t. if t = ''ok'' then Some [(''like'', JBool True)] else None)\<rparr>"

definition plain_runtime :: IAgentRuntime where
  "plain_runtime =
     \<lparr>modelProvider = OPENAI, imageModelProvider = OPENAI, token = Some ''sk-text'',
      getSetting = (\<lambda>key. None), verifiableInferenceAdapter = None,
      getService = (\<lambda>t. None)\<rparr>"

definition io0 :: io where
  "io0 = \<lparr>calls = 0, trace = []\<rparr>"

text \<open>The first setting that is not \<^verbatim>\<open>null\<close> in an ordered list of candidates.\<close>

fun first_set :: "'a option list \<Rightarrow> 'a option" where
  "first_set [] = None"
| "first_set (None # xs) = first_set xs"
| "first_set (Some v # xs) = Some v"

definition fallback_keys :: "string list" where
  "fallback_keys =
     [''HEURIST_API_KEY'', ''NINETEEN_AI_API_KEY'', ''TOGETHER_API_KEY'', ''FAL_API_KEY'',
      ''OPENAI_API_KEY'', ''VENICE_API_KEY'', ''LIVEPEER_GATEWAY_URL'']"

text \<open>
  A runtime whose text provider is OpenAI and whose image provider is \<open>p\<close>, with the
  Heurist and OpenAI keys among its settings and no other.
\<close>

definition image_runtime :: "ModelProviderName \<Rightarrow> IAgentRuntime" where
  "image_runtime p =
     \<lparr>modelProvider = OPENAI, imageModelProvider = p, token = Some ''sk-text'',
      getSetting =
        (\<lambda>key. if key = ''HEURIST_API_KEY'' then Some ''heurist-key''
               else if key = ''OPENAI_API_KEY'' then Some ''sk-openai'' else None),
      verifiableInferenceAdapter = None, getService = (\<lambda>t. None)\<rparr>"

text \<open>
  Providers that answer as their interfaces describe: Heurist with the URL of the image,
  Together with one image URL whose download has no bytes, Venice with one base64
  string, OpenAI with one \<^verbatim>\<open>b64_json\<close> string. The encoder stands for base64 only so
  far as it maps no bytes to the empty string. The settings table knows every provider.
\<close>

definition ok_response :: "error + json \<Rightarrow> string \<Rightarrow> Response" where
  "ok_response j bytes =
     \<lparr>ok = True, statusText = ''OK'', response_json = j, response_bytes = Inr bytes\<rparr>"

definition sample_ienv :: image_env where
  "sample_ienv =
     \<lparr>getImageModelSettings =
        (\<lambda>p. Inr (Some \<lparr>settings_name = ''image-model'', settings_steps = None\<rparr>)),
      fetch =
        (\<lambda>req.
           if req_url req = ''http://sequencer.heurist.xyz/submit_job''
           then Inr (ok_response (Inr (JStr ''https://heurist.example/out.png'')) [])
           else if req_url req = ''https://together.example/1.jpg''
           then Inr (ok_response (Inl (Error ''Unexpected token'')) [])
           else if req_url req = ''https://api.venice.ai/api/v1/image/generate''
           then Inr (ok_response (Inr (JObj [(''images'', JArr [JStr ''iVBORw0KGgo=''])])) [])
           else Inl (TypeError ''fetch failed'')),
      together_images_create =
        (\<lambda>req. Inr (Some (JObj [(''data'',
           JArr [JObj [(''url'', JStr ''https://together.example/1.jpg'')]])]))),
      fal_subscribe = (\<lambda>model. Inl (Error ''Unauthorized'')),
      openai_images_generate =
        (\<lambda>req. Inr (Some (JObj [(''data'', JArr [JObj [(''b64_json'', JStr ''iVBORw0KGgo='')]])]))),
      new_URL = (\<lambda>u. Inl (TypeError ''Invalid URL'')),
      base64 = (\<lambda>bytes. if bytes = [] then [] else ''AA==''),
      first_to_fail = 0\<rparr>"

definition sample_request :: ImageRequest where
  "sample_request = \<lparr>prompt = ''a cat'', width = 999, height = 999, count = Some 1\<rparr>"

text \<open>
  Providers whose answers leave nothing to encode: FAL and the Livepeer gateway with
  one image URL whose download has no bytes, Venice with an image that is an empty
  array, OpenAI with an empty \<^verbatim>\<open>b64_json\<close>. The runtime for Livepeer has the
  gateway's address as its only setting.
\<close>

definition empty_payload_ienv :: image_env where
  "empty_payload_ienv =
     sample_ienv
       \<lparr>fetch :=
          (\<lambda>req.
             if req_url req = ''https://images.example/1.png''
             then Inr (ok_response (Inl (Error ''Unexpected token'')) [])
             else if req_url req = ''https://api.venice.ai/api/v1/image/generate''
             then Inr (ok_response (Inr (JObj [(''images'', JArr [JArr []])])) [])
             else if req_url req = ''https://gateway.example/text-to-image''
             then Inr (ok_response
                    (Inr (JObj [(''images'',
                       JArr [JObj [(''url'', JStr ''https://images.example/1.png'')]])])) [])
             else Inl (TypeError ''fetch failed'')),
        fal_subscribe :=
          (\<lambda>model. Inr (Some (JObj [(''data'', JObj [(''images'',
             JArr [JObj [(''url'', JStr ''https://images.example/1.png''),
                         (''content_type'', JStr ''image/png'')]])])]))),
        openai_images_generate :=
          (\<lambda>req. Inr (Some (JObj [(''data'', JArr [JObj [(''b64_json'', JStr [])]])]))),
        new_URL :=
          (\<lambda>u. if u = ''https://gateway.example/''
               then Inr \<lparr>protocol = ''https:'', href = ''https://gateway.example/''\<rparr>
               else Inl (TypeError ''Invalid URL''))\<rparr>"

definition livepeer_runtime :: IAgentRuntime where
  "livepeer_runtime =
     (image_runtime LIVEPEER)
       \<lparr>getSetting :=
          (\<lambda>key. if key = ''LIVEPEER_GATEWAY_URL'' then Some ''https://gateway.example/''
                 else None)\<rparr>"

text \<open>
  The settings table as \<^verbatim>\<open>generation.ts\<close> has it: the file neither imports nor
  declares \<^verbatim>\<open>getImageModelSettings\<close> (its imports are lines 1 to 42), so the call
  on line 831 raises \<^verbatim>\<open>ReferenceError\<close>.
\<close>

definition as_written_ienv :: image_env where
  "as_written_ienv =
     sample_ienv\<lparr>getImageModelSettings := (\<lambda>p. unbound ''getImageModelSettings'')\<rparr>"

text \<open>
  A runtime with an image description service that knows one image, and answers with
  white space around the title and after the description: a no-break space (U+00A0)
  and a space before the title, a thin space (U+2009) after it, a line feed after the
  description.
\<close>

definition sample_service :: IImageDescriptionService where
  "sample_service =
     \<lparr>describeImage =
        (\<lambda>url. if url = ''https://example.com/cat.png''
               then Inr \<lparr>title = [CHR 0xC2, CHR 0xA0] @ '' A cat'' @ [CHR 0xE2, CHR 0x80, CHR 0x89],
                         description = ''A cat on a mat.'' @ [CHR 0x0A]\<rparr>
               else Inl (Error ''Failed to fetch image''))\<rparr>"

definition caption_runtime :: IAgentRuntime where
  "caption_runtime =
     plain_runtime\<lparr>getService :=
       (\<lambda>t. if t = IMAGE_DESCRIPTION then Some sample_service else None)\<rparr>"

text \<open>
  The two attempts of \<^verbatim>\<open>getWalletKey\<close> at a private key: decode as base58 and build
  the keypair, or decode as base64 and build the keypair.
\<close>

definition base58_attempt :: "wallet_env \<Rightarrow> string \<Rightarrow> error + Keypair" where
  "base58_attempt wenv key =
     (case bs58_decode wenv key of Inl e \<Rightarrow> Inl e | Inr secretKey \<Rightarrow> fromSecretKey wenv secretKey)"

definition base64_attempt :: "wallet_env \<Rightarrow> string \<Rightarrow> error + Keypair" where
  "base64_attempt wenv key = fromSecretKey wenv (base64_decode wenv key)"

definition private_key_reads :: "effect set" where
  "private_key_reads = {GetSetting ''SOLANA_PRIVATE_KEY'', GetSetting ''WALLET_PRIVATE_KEY''}"

definition public_key_reads :: "effect set" where
  "public_key_reads = {GetSetting ''SOLANA_PUBLIC_KEY'', GetSetting ''WALLET_PUBLIC_KEY''}"

definition not_found_error :: error where
  "not_found_error =
     Error (''Solana Public key not found in settings, but plugin was loaded, ''
       @ ''please set SOLANA_PUBLIC_KEY'')"

text \<open>
  Stand-ins for the libraries, each accepting one input: a base58 string, the base64 of
  another secret, the two secrets, and the address made of thirty-two \<^verbatim>\<open>1\<close>s.
\<close>

definition sample_wenv :: wallet_env where
  "sample_wenv =
     \<lparr>bs58_decode =
        (\<lambda>s. if s = ''4Nd1m'' then Inr ''secret-a'' else Inl (Error ''Non-base58 character'')),
      base64_decode = (\<lambda>s. if s = ''c2VjcmV0LWI='' then ''secret-b'' else []),
      fromSecretKey =
        (\<lambda>b. if b = ''secret-a'' \<or> b = ''secret-b'' then Inr (Keypair b)
             else Inl (Error ''bad secret key size'')),
      new_PublicKey =
        (\<lambda>s. if s = replicate 32 (CHR ''1'') then Inr (PublicKey s)
             else Inl (Error ''Invalid public key input''))\<rparr>"

definition wallet_runtime :: "(string \<Rightarrow> string option) \<Rightarrow> IAgentRuntime" where
  "wallet_runtime settings = plain_runtime\<lparr>getSetting := settings\<rparr>"

section \<open>Properties of the text generation call\<close>

lemma sleeps_append: "sleeps (xs @ ys) = sleeps xs @ sleeps ys"
  by (induction xs rule: sleeps.induct) simp_all

lemma provider_requests_append:
  "provider_requests (xs @ ys) = provider_requests xs + provider_requests ys"
  by (induction xs rule: provider_requests.induct) simp_all

lemma generateText_calls:
  "calls (snd (generateText env runtime context vi s)) = Suc (calls s)"
  by (simp add: generateText_def verifiable_generateText_def provider_generateText_def
      emit_def Let_def split: option.splits sum.splits)

lemma generateText_sleeps:
  "sleeps (trace (snd (generateText env runtime context vi s))) = sleeps (trace s)"
  by (simp add: generateText_def verifiable_generateText_def provider_generateText_def
      emit_def Let_def sleeps_append split: option.splits sum.splits)

lemma generateText_fst:
  "fst (generateText env runtime context None s) = attempt env runtime context (calls s)"
  by (simp add: attempt_def generateText_def verifiable_generateText_def
      provider_generateText_def emit_def Let_def split: option.splits sum.splits)

lemma generateText_empty:
  "generateText env runtime [] vi s = (Inr [], s\<lparr>calls := Suc (calls s)\<rparr>)"
  by (simp add: generateText_def Let_def)

lemma generateText_one_request:
  "context \<noteq> [] \<Longrightarrow>
     provider_requests (trace (snd (generateText env runtime context vi s)))
       = Suc (provider_requests (trace s))"
  by (simp add: generateText_def verifiable_generateText_def provider_generateText_def
      emit_def Let_def provider_requests_append split: option.splits sum.splits)

text \<open>
  C3. \<^verbatim>\<open>generateText\<close> with an empty prompt returns the empty string and makes no
  outbound call (the log is unchanged). With a non-empty prompt it makes exactly one
  generation request and either returns a string or raises: its result type holds
  nothing else, as the declared type \<^verbatim>\<open>Promise<string>\<close> says.
\<close>

theorem generateText_contract:
  "(context = [] \<longrightarrow>
      fst (generateText env runtime context vi s) = Inr []
      \<and> trace (snd (generateText env runtime context vi s)) = trace s)
   \<and> (context \<noteq> [] \<longrightarrow>
      ((\<exists>t. fst (generateText env runtime context vi s) = Inr t)
        \<or> (\<exists>e. fst (generateText env runtime context vi s) = Inl e))
      \<and> provider_requests (trace (snd (generateText env runtime context vi s)))
           = Suc (provider_requests (trace s)))"
proof (intro conjI impI)
  assume "context = []"
  then show "fst (generateText env runtime context vi s) = Inr []"
    and "trace (snd (generateText env runtime context vi s)) = trace s"
    by (simp_all add: generateText_empty)
next
  assume "context \<noteq> []"
  then show "provider_requests (trace (snd (generateText env runtime context vi s)))
           = Suc (provider_requests (trace s))"
    by (rule generateText_one_request)
  show "(\<exists>t. fst (generateText env runtime context vi s) = Inr t)
        \<or> (\<exists>e. fst (generateText env runtime context vi s) = Inl e)"
    by (cases "fst (generateText env runtime context vi s)") auto
qed

theorem generateText_contract_witness:
  "fst (generateText banana_env plain_runtime [] None io0) = Inr []
   \<and> trace (snd (generateText banana_env plain_runtime [] None io0)) = []
   \<and> fst (generateText banana_env plain_runtime ''hello'' None io0) = Inr ''banana''
   \<and> provider_requests (trace (snd (generateText banana_env plain_runtime ''hello'' None io0))) = 1"
proof -
  have e: "trace io0 = []" "provider_requests (trace io0) = 0"
    by (simp_all add: io0_def)
  have r: "fst (generateText banana_env plain_runtime ''hello'' None io0) = Inr ''banana''"
    by (simp add: generateText_def provider_generateText_def banana_env_def
        plain_runtime_def io0_def emit_def Let_def)
  show ?thesis
    using generateText_contract [of "[]" banana_env plain_runtime None io0]
      generateText_contract [of "''hello''" banana_env plain_runtime None io0] e r
    by simp
qed

section \<open>Properties of the retrying generators\<close>

lemma retry_loop_fail:
  assumes "\<And>t. attempt env runtime context (calls s) = Inr t \<Longrightarrow> parse t = None"
  shows "retry_loop env runtime context parse d s =
     retry_loop env runtime context parse (d * 2)
       (setTimeout d (snd (generateText env runtime context None s)))"
  using assms generateText_fst [of env runtime "context" s]
  by (subst retry_loop.simps) (auto split: prod.splits sum.splits option.splits)

lemma retry_loop_ok:
  assumes "attempt env runtime context (calls s) = Inr t" and "parse t = Some v"
  shows "retry_loop env runtime context parse d s =
     Some (Inr v, snd (generateText env runtime context None s))"
  using assms generateText_fst [of env runtime "context" s]
  by (subst retry_loop.simps) (auto split: prod.splits sum.splits option.splits)

lemma doubling_upt: "d # map (\<lambda>i. d * 2 * 2 ^ i) [0..<N] = map (\<lambda>i. d * 2 ^ i) [0..<Suc N]"
  for d :: nat
  by (simp add: upt_rec [of 0 "Suc N"] map_Suc_upt [symmetric] del: upt_Suc)

lemma retry_loop_backoff:
  "unparseable_then_parsed env runtime context parse (calls s) N v \<Longrightarrow>
     returns_after (retry_loop env runtime context parse d s) s v (N + 1)
       (map (\<lambda>i. d * 2 ^ i) [0..<N])"
proof (induction N arbitrary: d s)
  case 0
  then show ?case
    by (auto simp: unparseable_then_parsed_def returns_after_def retry_loop_ok
        generateText_calls generateText_sleeps)
next
  case (Suc N)
  let ?s1 = "setTimeout d (snd (generateText env runtime context None s))"
  have c1: "calls ?s1 = Suc (calls s)"
    by (simp add: setTimeout_def emit_def generateText_calls)
  have t1: "sleeps (trace ?s1) = sleeps (trace s) @ [d]"
    by (simp add: setTimeout_def emit_def sleeps_append generateText_sleeps)
  from Suc.prems have all: "\<forall>i<Suc N. \<exists>t. attempt env runtime context (calls s + i) = Inr t \<and> parse t = None"
    and last: "\<exists>t. attempt env runtime context (calls s + Suc N) = Inr t \<and> parse t = Some v"
    by (simp_all add: unparseable_then_parsed_def)
  from all have "\<exists>t. attempt env runtime context (calls s + 0) = Inr t \<and> parse t = None"
    by blast
  then have first: "\<And>t. attempt env runtime context (calls s) = Inr t \<Longrightarrow> parse t = None"
    by auto
  have step: "retry_loop env runtime context parse d s =
      retry_loop env runtime context parse (d * 2) ?s1"
    by (rule retry_loop_fail) (rule first)
  have "\<forall>i<N. \<exists>t. attempt env runtime context (calls ?s1 + i) = Inr t \<and> parse t = None"
  proof (intro allI impI)
    fix i assume "i < N"
    then have "Suc i < Suc N" by simp
    with all have "\<exists>t. attempt env runtime context (calls s + Suc i) = Inr t \<and> parse t = None"
      by blast
    then show "\<exists>t. attempt env runtime context (calls ?s1 + i) = Inr t \<and> parse t = None"
      by (simp add: c1)
  qed
  with last have "unparseable_then_parsed env runtime context parse (calls ?s1) N v"
    by (simp add: unparseable_then_parsed_def c1)
  from Suc.IH [OF this, of "d * 2"]
  obtain s' where s': "retry_loop env runtime context parse (d * 2) ?s1 = Some (Inr v, s')"
    "calls s' = calls ?s1 + (N + 1)"
    "sleeps (trace s') = sleeps (trace ?s1) @ map (\<lambda>i. d * 2 * 2 ^ i) [0..<N]"
    by (auto simp: returns_after_def)
  have "sleeps (trace s') = sleeps (trace s) @ map (\<lambda>i. d * 2 ^ i) [0..<Suc N]"
    using s'(3) t1 doubling_upt [of d N] by simp
  with s'(1,2) step c1 show ?case
    unfolding returns_after_def by (intro exI [of _ s']) simp
qed

lemma backoff_total: "sum_list (backoff N) = 1000 * (2 ^ N - 1)"
  by (induction N) (simp_all add: backoff_def algebra_simps)

lemma retry_loop_never_raises:
  "retry_loop env runtime context parse d s = Some y \<Longrightarrow>
     \<exists>v t. fst y = Inr v \<and> parse t = Some v"
proof (induct rule: retry_loop.raw_induct [rotated 1, consumes 1])
  case (1 loop env runtime ctx parse retryDelay s y)
  then show ?case
    by (auto split: prod.splits sum.splits option.splits)
qed

lemma message_loop_never_raises:
  "generateMessageResponse_loop env runtime context d s = Some y \<Longrightarrow>
     \<exists>v t. fst y = Inr v \<and> parseJSONObjectFromText env t = Some v"
proof (induct rule: generateMessageResponse_loop.raw_induct [rotated 1, consumes 1])
  case (1 loop env runtime ctx retryLength s y)
  then show ?case
    by (auto split: prod.splits sum.splits option.splits)
qed

lemma message_loop_unparseable:
  assumes "attempt env runtime context (calls s) = Inr t"
    and "parseJSONObjectFromText env t = None"
  shows "generateMessageResponse_loop env runtime context d s =
     generateMessageResponse_loop env runtime context d
       (snd (generateText env runtime context None s))"
  using assms generateText_fst [of env runtime "context" s]
  by (subst generateMessageResponse_loop.simps)
    (auto split: prod.splits sum.splits option.splits)

lemma message_loop_ok:
  assumes "attempt env runtime context (calls s) = Inr t"
    and "parseJSONObjectFromText env t = Some v"
  shows "generateMessageResponse_loop env runtime context d s =
     Some (Inr v, snd (generateText env runtime context None s))"
  using assms generateText_fst [of env runtime "context" s]
  by (subst generateMessageResponse_loop.simps)
    (auto split: prod.splits sum.splits option.splits)

lemma message_loop_no_backoff:
  "unparseable_then_parsed env runtime context (parseJSONObjectFromText env) (calls s) N v \<Longrightarrow>
     returns_after (generateMessageResponse_loop env runtime context d s) s v (N + 1) []"
proof (induction N arbitrary: s)
  case 0
  then show ?case
    by (auto simp: unparseable_then_parsed_def returns_after_def message_loop_ok
        generateText_calls generateText_sleeps)
next
  case (Suc N)
  let ?parse = "parseJSONObjectFromText env"
  let ?s1 = "snd (generateText env runtime context None s)"
  have c1: "calls ?s1 = Suc (calls s)"
    by (simp add: generateText_calls)
  from Suc.prems have all: "\<forall>i<Suc N. \<exists>t. attempt env runtime context (calls s + i) = Inr t \<and> ?parse t = None"
    and last: "\<exists>t. attempt env runtime context (calls s + Suc N) = Inr t \<and> ?parse t = Some v"
    by (simp_all add: unparseable_then_parsed_def)
  from all have "\<exists>t. attempt env runtime context (calls s + 0) = Inr t \<and> ?parse t = None"
    by blast
  then obtain t0 where first: "attempt env runtime context (calls s) = Inr t0" "?parse t0 = None"
    by auto
  have step: "generateMessageResponse_loop env runtime context d s =
      generateMessageResponse_loop env runtime context d ?s1"
    by (rule message_loop_unparseable) (rule first)+
  have "\<forall>i<N. \<exists>t. attempt env runtime context (calls ?s1 + i) = Inr t \<and> ?parse t = None"
  proof (intro allI impI)
    fix i assume "i < N"
    then have "Suc i < Suc N" by simp
    with all have "\<exists>t. attempt env runtime context (calls s + Suc i) = Inr t \<and> ?parse t = None"
      by blast
    then show "\<exists>t. attempt env runtime context (calls ?s1 + i) = Inr t \<and> ?parse t = None"
      by (simp add: c1)
  qed
  with last have "unparseable_then_parsed env runtime context ?parse (calls ?s1) N v"
    by (simp add: unparseable_then_parsed_def c1)
  from Suc.IH [OF this] step c1 show ?case
    by (auto simp: returns_after_def generateText_sleeps)
qed

lemma message_loop_returns_nonempty:
  "generateMessageResponse_loop env runtime c d s = Some y \<Longrightarrow>
     parseJSONObjectFromText env [] = None \<Longrightarrow> c \<noteq> []"
proof (induct rule: generateMessageResponse_loop.raw_induct [rotated 1, consumes 1])
  case (1 loop env runtime ctx retryLength s y)
  show ?case
  proof
    assume e: "ctx = []"
    from 1(2) have "loop env runtime [] retryLength (s\<lparr>calls := Suc (calls s)\<rparr>) = Some y"
      using 1(3) by (simp add: e generateText_empty)
    from 1(1) [OF this 1(3)] show False by simp
  qed
qed

text \<open>
  The four generators whose loop is not reached through an unbound identifier never
  raise, and what they return is a value their parser produced (or the \<open>[]\<close> of the
  empty-prompt guard).
\<close>

lemma generators_never_raise:
  "generateShouldRespond env runtime context s = Some (r1, s1) \<Longrightarrow> \<exists>v. r1 = Inr v"
  "generateTextArray env runtime context s = Some (r2, s2) \<Longrightarrow> \<exists>v. r2 = Inr v"
  "generateObjectArray env runtime context s = Some (r3, s3) \<Longrightarrow> \<exists>v. r3 = Inr v"
  "generateTweetActions env runtime context s = Some (r4, s4) \<Longrightarrow> \<exists>v. r4 = Inr v"
  "generateMessageResponse env runtime context s = Some (r5, s5) \<Longrightarrow> \<exists>v. r5 = Inr v"
  using retry_loop_never_raises message_loop_never_raises
  by (fastforce simp: generateShouldRespond_def generateTextArray_def generateObjectArray_def
      generateTweetActions_def generateMessageResponse_def split: if_splits)+

lemma array_generators_empty_prompt:
  "generateTextArray env runtime [] s = Some (Inr [], s)"
  "generateObjectArray env runtime [] s = Some (Inr [], s)"
  by (simp_all add: generateTextArray_def generateObjectArray_def)

text \<open>
  C1. The claim says that no retrying generator ever raises to its caller. In
  \<^verbatim>\<open>generation.ts\<close> the identifier \<^verbatim>\<open>modelSettings\<close> is unbound where
  \<^verbatim>\<open>generateTrueOrFalse\<close> reads it (line 610, before the loop and outside its
  \<^verbatim>\<open>try\<close>), so every call of \<^verbatim>\<open>generateTrueOrFalse\<close> raises
  \<^verbatim>\<open>ReferenceError\<close> at once, with no text generation call and no delay.
\<close>

theorem generateTrueOrFalse_raises:
  "modelSettings env = unbound ''modelSettings'' \<Longrightarrow>
     generateTrueOrFalse env runtime context s
       = Some (Inl (ReferenceError ''modelSettings is not defined''), s)"
  by (simp add: generateTrueOrFalse_def unbound_def)

theorem generateTrueOrFalse_raises_witness:
  "modelSettings banana_env = unbound ''modelSettings''
   \<and> generateTrueOrFalse banana_env plain_runtime ''Is the sky blue?'' io0
       = Some (Inl (ReferenceError ''modelSettings is not defined''), io0)"
proof -
  have h: "modelSettings banana_env = unbound ''modelSettings''"
    by (simp add: banana_env_def)
  show ?thesis
    using h generateTrueOrFalse_raises [OF h, of plain_runtime "''Is the sky blue?''" io0]
    by simp
qed

text \<open>
  C2, as amended. Let the text generation call return a response that the parser rejects
  on each of the first \<open>N\<close> attempts and one that parses on attempt \<open>N + 1\<close>. Then
  \<^verbatim>\<open>generateShouldRespond\<close>, \<^verbatim>\<open>generateTweetActions\<close> and, on a non-empty prompt,
  \<^verbatim>\<open>generateTextArray\<close> and \<^verbatim>\<open>generateObjectArray\<close> return the parsed value after
  exactly \<open>N + 1\<close> calls, having slept \<open>1000 * 2 ^ i\<close> milliseconds for \<open>i = 0, ..., N - 1\<close>
  in that order, \<open>1000 * (2 ^ N - 1)\<close> in total. \<^verbatim>\<open>generateMessageResponse\<close> returns
  after exactly \<open>N + 1\<close> calls and sleeps nothing.
\<close>

theorem retrying_generators_backoff:
  "(unparseable_then_parsed env runtime context
        (\<lambda>response. parseShouldRespondFromText env (trim response)) (calls s) N v1
      \<longrightarrow> returns_after (generateShouldRespond env runtime context s) s v1 (N + 1) (backoff N))
   \<and> (unparseable_then_parsed env runtime context
        (\<lambda>response. parseActionResponseFromText env (trim response)) (calls s) N v2
      \<longrightarrow> returns_after (generateTweetActions env runtime context s) s v2 (N + 1) (backoff N))
   \<and> (context \<noteq> [] \<and>
        unparseable_then_parsed env runtime context (parseJsonArrayFromText env) (calls s) N v3
      \<longrightarrow> returns_after (generateTextArray env runtime context s) s v3 (N + 1) (backoff N)
        \<and> returns_after (generateObjectArray env runtime context s) s v3 (N + 1) (backoff N))
   \<and> (unparseable_then_parsed env runtime context (parseJSONObjectFromText env) (calls s) N v4
      \<longrightarrow> returns_after (generateMessageResponse env runtime context s) s v4 (N + 1) [])
   \<and> sum_list (backoff N) = 1000 * (2 ^ N - 1)"
proof (intro conjI impI)
  assume "unparseable_then_parsed env runtime context
        (\<lambda>response. parseShouldRespondFromText env (trim response)) (calls s) N v1"
  from retry_loop_backoff [OF this, of 1000]
  show "returns_after (generateShouldRespond env runtime context s) s v1 (N + 1) (backoff N)"
    by (simp add: generateShouldRespond_def backoff_def)
next
  assume "unparseable_then_parsed env runtime context
        (\<lambda>response. parseActionResponseFromText env (trim response)) (calls s) N v2"
  from retry_loop_backoff [OF this, of 1000]
  show "returns_after (generateTweetActions env runtime context s) s v2 (N + 1) (backoff N)"
    by (simp add: generateTweetActions_def backoff_def)
next
  assume a: "context \<noteq> [] \<and>
        unparseable_then_parsed env runtime context (parseJsonArrayFromText env) (calls s) N v3"
  then have "unparseable_then_parsed env runtime context (parseJsonArrayFromText env)
      (calls s) N v3"
    by simp
  from retry_loop_backoff [OF this, of 1000] a
  show "returns_after (generateTextArray env runtime context s) s v3 (N + 1) (backoff N)"
    and "returns_after (generateObjectArray env runtime context s) s v3 (N + 1) (backoff N)"
    by (simp_all add: generateTextArray_def generateObjectArray_def backoff_def)
next
  assume "unparseable_then_parsed env runtime context (parseJSONObjectFromText env)
      (calls s) N v4"
  from message_loop_no_backoff [OF this, of 1000]
  show "returns_after (generateMessageResponse env runtime context s) s v4 (N + 1) []"
    by (simp add: generateMessageResponse_def)
next
  show "sum_list (backoff N) = 1000 * (2 ^ N - 1)"
    by (rule backoff_total)
qed

lemma banana_attempts:
  "attempt banana_env plain_runtime ''hi'' 0 = Inr ''banana''"
  "attempt banana_env plain_runtime ''hi'' (Suc 0) = Inr '' ok ''"
  by (simp_all add: attempt_def generateText_def provider_generateText_def banana_env_def
      plain_runtime_def emit_def Let_def)

lemma banana_parsers:
  "parseShouldRespondFromText banana_env t = (if t = ''ok'' then Some RESPOND else None)"
  "parseActionResponseFromText banana_env t
     = (if t = ''ok'' then Some [(''like'', JBool True)] else None)"
  "parseJsonArrayFromText banana_env t = (if t = '' ok '' then Some [JStr ''ok''] else None)"
  "parseJSONObjectFromText banana_env t
     = (if t = '' ok '' then Some [(''text'', JStr ''ok'')] else None)"
  by (simp_all add: banana_env_def)

lemma trim_examples: "trim ''banana'' = ''banana''" "trim '' ok '' = ''ok''"
  by (simp_all add: trim_def spaces_def strip_left.simps)

theorem retrying_generators_backoff_witness:
  "returns_after (generateShouldRespond banana_env plain_runtime ''hi'' io0) io0 RESPOND 2 [1000]
   \<and> returns_after (generateTweetActions banana_env plain_runtime ''hi'' io0) io0
        [(''like'', JBool True)] 2 [1000]
   \<and> returns_after (generateTextArray banana_env plain_runtime ''hi'' io0) io0 [JStr ''ok''] 2 [1000]
   \<and> returns_after (generateObjectArray banana_env plain_runtime ''hi'' io0) io0 [JStr ''ok''] 2 [1000]
   \<and> returns_after (generateMessageResponse banana_env plain_runtime ''hi'' io0) io0
        [(''text'', JStr ''ok'')] 2 []
   \<and> sum_list (backoff 1) = 1000"
proof -
  have c: "calls io0 = 0" by (simp add: io0_def)
  have h1: "unparseable_then_parsed banana_env plain_runtime ''hi''
      (\<lambda>response. parseShouldRespondFromText banana_env (trim response)) (calls io0) 1 RESPOND"
    by (simp add: unparseable_then_parsed_def c banana_attempts trim_examples banana_parsers)
  have h2: "unparseable_then_parsed banana_env plain_runtime ''hi''
      (\<lambda>response. parseActionResponseFromText banana_env (trim response)) (calls io0) 1
      [(''like'', JBool True)]"
    by (simp add: unparseable_then_parsed_def c banana_attempts trim_examples banana_parsers)
  have h3: "unparseable_then_parsed banana_env plain_runtime ''hi''
      (parseJsonArrayFromText banana_env) (calls io0) 1 [JStr ''ok'']"
    by (simp add: unparseable_then_parsed_def c banana_attempts banana_parsers)
  have h4: "unparseable_then_parsed banana_env plain_runtime ''hi''
      (parseJSONObjectFromText banana_env) (calls io0) 1 [(''text'', JStr ''ok'')]"
    by (simp add: unparseable_then_parsed_def c banana_attempts banana_parsers)
  have b: "backoff 1 = [1000]" by (simp add: backoff_def)
  show ?thesis
    using retrying_generators_backoff [of banana_env plain_runtime "''hi''" io0 1 RESPOND
        "[(''like'', JBool True)]" "[JStr ''ok'']" "[(''text'', JStr ''ok'')]"] h1 h2 h3 h4 b
    by (simp add: numeral_2_eq_2)
qed

text \<open>
  C2, the claim as stated fails: the provider answers \<^verbatim>\<open>banana\<close>, which the parser
  rejects, and then a response that parses (\<open>N = 1\<close>), yet
  \<^verbatim>\<open>generateMessageResponse\<close> returns after two calls without any delay, where the
  claim has a delay of 1000 milliseconds.
\<close>

theorem generateMessageResponse_backoff_counterexample:
  "unparseable_then_parsed banana_env plain_runtime ''hi''
      (parseJSONObjectFromText banana_env) (calls io0) 1 [(''text'', JStr ''ok'')]
   \<and> generateMessageResponse banana_env plain_runtime ''hi'' io0
       = Some (Inr [(''text'', JStr ''ok'')],
           \<lparr>calls = 2, trace = [AiGenerateText ''hi'', AiGenerateText ''hi'']\<rparr>)
   \<and> sum_list (sleeps [AiGenerateText ''hi'', AiGenerateText ''hi'']) \<noteq> 1000 * (2 ^ 1 - 1)
   \<and> \<not> returns_after (generateMessageResponse banana_env plain_runtime ''hi'' io0) io0
         [(''text'', JStr ''ok'')] 2 (backoff 1)"
proof -
  have h4: "unparseable_then_parsed banana_env plain_runtime ''hi''
      (parseJSONObjectFromText banana_env) (calls io0) 1 [(''text'', JStr ''ok'')]"
    by (simp add: unparseable_then_parsed_def io0_def banana_attempts banana_parsers)
  have run: "generateMessageResponse banana_env plain_runtime ''hi'' io0
       = Some (Inr [(''text'', JStr ''ok'')],
           \<lparr>calls = 2, trace = [AiGenerateText ''hi'', AiGenerateText ''hi'']\<rparr>)"
    by code_simp
  have "\<not> returns_after (generateMessageResponse banana_env plain_runtime ''hi'' io0) io0
         [(''text'', JStr ''ok'')] 2 (backoff 1)"
    by (simp add: run returns_after_def backoff_def)
  with h4 run show ?thesis by simp
qed

text \<open>
  C4. The claim says that \<^verbatim>\<open>generateMessageResponse\<close>, like the two array
  generators, returns at once on an empty prompt without calling the text generation.
  The array generators do (\<open>array_generators_empty_prompt\<close>). \<^verbatim>\<open>generateMessageResponse\<close>
  has no such guard: it calls \<^verbatim>\<open>generateText\<close>, which returns the empty string,
  and with a parser that rejects the empty string it goes round its loop for ever,
  without a delay: it never returns.
\<close>

theorem generateMessageResponse_empty_prompt:
  "parseJSONObjectFromText env [] = None \<Longrightarrow>
     generateMessageResponse env runtime [] s = None"
  using message_loop_returns_nonempty [of env runtime "[]" 1000 s]
  by (cases "generateMessageResponse_loop env runtime [] 1000 s")
    (auto simp: generateMessageResponse_def)

theorem generateMessageResponse_empty_prompt_witness:
  "parseJSONObjectFromText banana_env [] = None
   \<and> generateMessageResponse banana_env plain_runtime [] io0 = None"
proof -
  have h: "parseJSONObjectFromText banana_env [] = None"
    by (simp add: banana_parsers)
  show ?thesis
    using h generateMessageResponse_empty_prompt [OF h, of plain_runtime io0] by simp
qed

section \<open>Properties of the image generation dispatcher\<close>

lemma returnE_iff: "returnE x s = (r, s') \<longleftrightarrow> r = Inr x \<and> s' = s"
  by (auto simp: returnE_def)

lemma throwE_iff: "throwE e s = (r, s') \<longleftrightarrow> r = Inl e \<and> s' = s"
  by (auto simp: throwE_def)

lemma liftE_iff: "liftE v s = (r, s') \<longleftrightarrow> r = v \<and> s' = s"
  by (auto simp: liftE_def)

lemma perform_iff: "perform ev outcome s = (r, s') \<longleftrightarrow> r = outcome \<and> s' = s @ [ev]"
  by (auto simp: perform_def)

lemma bindE_Inr_iff:
  "bindE m f s = (Inr y, s') \<longleftrightarrow> (\<exists>x s1. m s = (Inr x, s1) \<and> f x s1 = (Inr y, s'))"
  by (auto simp: bindE_def split: prod.splits sum.splits)


lemma catchE_Inr_iff:
  "catchE m h s = (Inr y, s') \<longleftrightarrow>
     m s = (Inr y, s') \<or> (\<exists>e s1. m s = (Inl e, s1) \<and> h e s1 = (Inr y, s'))"
  by (auto simp: catchE_def split: prod.splits sum.splits)

lemmas js_iff = returnE_iff throwE_iff liftE_iff perform_iff bindE_Inr_iff catchE_Inr_iff

lemma mapE_list_all2:
  assumes "\<And>x s y s1. f x s = (Inr y, s1) \<Longrightarrow> R x y"
  shows "mapE f xs s = (Inr ys, s') \<Longrightarrow> list_all2 R xs ys"
proof (induction xs arbitrary: s ys s')
  case Nil
  then show ?case by (simp add: returnE_iff)
next
  case (Cons x xs)
  then obtain y s1 ys' where "f x s = (Inr y, s1)" "mapE f xs s1 = (Inr ys', s')" "ys = y # ys'"
    by (auto simp: js_iff)
  with Cons.IH assms show ?case by auto
qed


lemma first_rejection_None: "first_rejection winner errs = None \<longleftrightarrow> errs = []"
  by (cases "filter fst errs") (auto simp: first_rejection_def)

lemma settle_fulfilments:
  assumes "\<And>x s y s1. f x s = (Inr y, s1) \<Longrightarrow> R x y"
  shows "settle f xs s = (rs, s') \<Longrightarrow> rejections rs = [] \<Longrightarrow> list_all2 R xs (fulfilments rs)"
proof (induction xs arbitrary: s rs s')
  case Nil
  then show ?case by auto
next
  case (Cons x xs)
  obtain r s1 where fx: "f x s = (r, s1)" by (cases "f x s")
  obtain rs' s2 where st: "settle f xs s1 = (rs', s2)" by (cases "settle f xs s1")
  from Cons.prems(1) fx st have rs: "rs = (s1 = s, r) # rs'" and "s' = s2" by auto
  with Cons.prems(2) obtain y where r: "r = Inr y" and none: "rejections rs' = []"
    by (cases r) auto
  from Cons.IH [OF st none] have "list_all2 R xs (fulfilments rs')" .
  moreover from fx r assms have "R x y" by blast
  ultimately show ?case by (simp add: rs r)
qed

lemma allE_list_all2:
  assumes "allE winner f xs s = (Inr ys, s')"
    and "\<And>x s y s1. f x s = (Inr y, s1) \<Longrightarrow> R x y"
  shows "list_all2 R xs ys"
proof -
  obtain rs s2 where st: "settle f xs s = (rs, s2)" by (cases "settle f xs s")
  with assms(1) have "first_rejection winner (rejections rs) = None" and ys: "ys = fulfilments rs"
    by (auto simp: allE_def split: option.splits)
  then have "rejections rs = []" by (simp add: first_rejection_None)
  from settle_fulfilments [of f R, OF assms(2) st this] ys show ?thesis by simp
qed

lemma map_target_Inr: "map_target v = Inr xs \<longleftrightarrow> v = Some (JArr xs)"
  by (auto simp: map_target_def split: option.splits json.splits)

lemma liftE_Inr_iff: "liftE v s = (Inr x, s') \<longleftrightarrow> v = Inr x \<and> s' = s"
  by (auto simp: liftE_def)

lemma perform_Inr_iff:
  "perform ev outcome s = (Inr x, s') \<longleftrightarrow> outcome = Inr x \<and> s' = s @ [ev]"
  by (auto simp: perform_def)

lemmas js_Inr_iff =
  returnE_iff throwE_iff liftE_Inr_iff perform_Inr_iff bindE_Inr_iff catchE_Inr_iff

lemma data_url_matches: "payload \<noteq> [] \<Longrightarrow> matches_data_url (data_url mime payload)"
  by (auto simp: matches_data_url_def)

lemma fetch_jpeg_data_url:
  "fetch_jpeg ienv url =
     bindE (fetch_call ienv \<lparr>req_method = GET, req_url = url, req_authorization = None\<rparr>)
       (\<lambda>imageResponse.
     if \<not> ok imageResponse
     then throwE (Error (''Failed to fetch image: '' @ statusText imageResponse))
     else bindE (liftE (response_bytes imageResponse)) (\<lambda>arrayBuffer.
       returnE (data_url ''image/jpeg'' (base64 ienv arrayBuffer))))"
  by (simp add: fetch_jpeg_def data_url_def cong: if_cong)

lemma fetch_jpeg_entry: "fetch_jpeg ienv url s = (Inr y, s') \<Longrightarrow> jpeg_of ienv url y"
  by (auto simp: fetch_jpeg_data_url fetch_call_def jpeg_of_def js_Inr_iff split: if_splits)

lemma together_image_entry:
  "together_image ienv img s = (Inr y, s') \<Longrightarrow> together_entry ienv img y"
  by (auto simp: together_image_def together_entry_def js_Inr_iff split: if_splits
      dest: fetch_jpeg_entry)

lemma livepeer_image_entry:
  "livepeer_image ienv key img s = (Inr y, s') \<Longrightarrow> livepeer_entry ienv key img y"
  unfolding livepeer_image_def livepeer_entry_def js_Inr_iff
  by (blast dest: fetch_jpeg_entry)

lemma fal_image_entry: "fal_image ienv img s = (Inr y, s') \<Longrightarrow> fal_entry ienv img y"
proof -
  have "fal_image ienv img =
     bindE (liftE (get_prop (Some img) ''url'')) (\<lambda>url.
     bindE (fetch_call ienv
        \<lparr>req_method = GET, req_url = template url, req_authorization = None\<rparr>)
       (\<lambda>response.
     bindE (liftE (response_bytes response)) (\<lambda>buffer.
     bindE (liftE (get_prop (Some img) ''content_type'')) (\<lambda>content_type.
       returnE (data_url (template content_type) (base64 ienv buffer))))))"
    by (simp add: fal_image_def data_url_def)
  then show "fal_image ienv img s = (Inr y, s') \<Longrightarrow> fal_entry ienv img y"
    by (auto simp: fal_entry_def fetch_call_def js_Inr_iff)
qed

lemma png_entry_entry: "png_entry provider b s = (Inr y, s') \<Longrightarrow> png_entry_of b y"
proof -
  have "png_entry provider b =
     (if \<not> truthy (Some b)
      then throwE (Error (''Empty base64 string in '' @ provider @ '' response''))
      else returnE (data_url ''image/png'' (to_string b)))"
    by (simp add: png_entry_def data_url_def cong: if_cong)
  then show "png_entry provider b s = (Inr y, s') \<Longrightarrow> png_entry_of b y"
    by (auto simp: png_entry_of_def js_Inr_iff truthy_def data_url_matches split: if_splits)
qed

lemma png_b64_json_entry: "png_b64_json img s = (Inr y, s') \<Longrightarrow> default_entry img y"
proof -
  have "png_b64_json img =
     bindE (liftE (get_prop (Some img) ''b64_json'')) (\<lambda>b64.
       returnE (data_url ''image/png'' (template b64)))"
    by (simp add: png_b64_json_def data_url_def)
  then show "png_b64_json img s = (Inr y, s') \<Longrightarrow> default_entry img y"
    by (auto simp: default_entry_def js_Inr_iff)
qed

lemma heurist_branch_entries:
  assumes "heurist_branch ienv apiKey s = (Inr r, s')"
  shows "\<exists>reply. heurist_reply ienv apiKey reply \<and> r = succeeded [reply]"
  using assms
  by (auto simp: heurist_branch_def heurist_reply_def fetch_call_def js_Inr_iff split: if_splits)

lemma together_branch_entries:
  assumes "together_branch ienv apiKey settings request s = (Inr r, s')"
  shows "\<exists>images entries. r = succeeded entries \<and> entries \<noteq> []
     \<and> together_images ienv apiKey settings request images
     \<and> list_all2 (together_entry ienv) images entries"
proof -
  from assms obtain images s1 s2 base64s where
    "together_images ienv apiKey settings request images"
    "allE (first_to_fail ienv) (together_image ienv) images s1 = (Inr base64s, s2)"
    "r = succeeded base64s" "base64s \<noteq> []"
    by (auto simp: together_branch_def together_images_def Let_def js_Inr_iff map_target_Inr
        split: if_splits)
  with allE_list_all2 [of "first_to_fail ienv" "together_image ienv" images s1 base64s s2
      "together_entry ienv"] together_image_entry
  show ?thesis by blast
qed

lemma fal_branch_entries:
  assumes "fal_branch ienv model s = (Inr r, s')"
  shows "\<exists>images entries. r = succeeded entries \<and> fal_images ienv model images
     \<and> list_all2 (fal_entry ienv) images entries"
proof -
  from assms obtain images s1 s2 base64s where
    "fal_images ienv model images"
    "allE (first_to_fail ienv) (fal_image ienv) images s1 = (Inr base64s, s2)"
    "r = succeeded base64s"
    by (auto simp: fal_branch_def fal_images_def js_Inr_iff map_target_Inr)
  with allE_list_all2 [of "first_to_fail ienv" "fal_image ienv" images s1 base64s s2
      "fal_entry ienv"] fal_image_entry
  show ?thesis by blast
qed

lemma png_branch_entries:
  assumes "png_branch ienv provider url apiKey s = (Inr r, s')"
  shows "\<exists>images entries. r = succeeded entries
     \<and> posted_images ienv url (bearer apiKey) images
     \<and> list_all2 png_entry_of images entries"
proof -
  from assms obtain images s1 s2 base64s where
    "posted_images ienv url (bearer apiKey) images"
    "mapE (png_entry provider) images s1 = (Inr base64s, s2)" "r = succeeded base64s"
    by (auto simp: png_branch_def posted_images_def fetch_call_def js_Inr_iff map_target_Inr
        split: if_splits)
  with mapE_list_all2 [of "png_entry provider" png_entry_of images s1 base64s s2]
    png_entry_entry
  show ?thesis by blast
qed

lemma default_branch_entries:
  assumes "default_branch ienv runtime model request s = (Inr r, s')"
  shows "\<exists>images entries. r = succeeded entries
     \<and> openai_images ienv runtime model request images
     \<and> list_all2 default_entry images entries"
proof -
  from assms obtain images s1 s2 base64s where
    "openai_images ienv runtime model request images"
    "mapE png_b64_json images s1 = (Inr base64s, s2)" "r = succeeded base64s"
    by (auto simp: default_branch_def openai_images_def Let_def js_Inr_iff map_target_Inr
        split: option.splits if_splits)
  with mapE_list_all2 [of png_b64_json default_entry images s1 base64s s2]
    png_b64_json_entry
  show ?thesis by blast
qed

lemma length_truthy:
  "(if imgs = None \<or> imgs = Some JNull then Inr None else get_prop imgs ''length'') = Inr len
   \<Longrightarrow> truthy len \<Longrightarrow> map_target imgs = Inr images \<Longrightarrow> images \<noteq> []"
  by (auto simp: map_target_Inr get_prop_def truthy_def split: if_splits)

lemma catch_success:
  "catchE m (\<lambda>err. returnE (failed (Inr err))) s = (Inr r, s') \<Longrightarrow> success r
   \<Longrightarrow> m s = (Inr r, s')"
  by (auto simp: catchE_Inr_iff returnE_iff failed_def)

lemma livepeer_branch_run:
  assumes "livepeer_branch ienv apiKey s = (Inr r, s')" and "success r"
  shows "\<exists>key baseUrl response result imgs len images s1 s2 base64s.
       apiKey = Some key
     \<and> new_URL ienv key = Inr baseUrl \<and> take 4 (protocol baseUrl) = ''http''
     \<and> fetch ienv \<lparr>req_method = POST, req_url = href baseUrl @ ''text-to-image'',
                  req_authorization = Some ''Bearer eliza-app-img''\<rparr> = Inr response
     \<and> response_json response = Inr result
     \<and> get_prop (Some result) ''images'' = Inr imgs
     \<and> (if imgs = None \<or> imgs = Some JNull then Inr None else get_prop imgs ''length'')
          = Inr len
     \<and> truthy len \<and> map_target imgs = Inr images
     \<and> allE (first_to_fail ienv) (livepeer_image ienv key) images s1 = (Inr base64s, s2)
     \<and> r = succeeded base64s"
proof (cases apiKey)
  case None
  with assms show ?thesis by (simp add: livepeer_branch_def throwE_iff)
next
  case (Some key)
  show ?thesis
  proof (cases "key = []")
    case True
    with Some assms show ?thesis by (simp add: livepeer_branch_def throwE_iff)
  next
    case False
    with Some assms(1) have
      "catchE
              (bindE (liftE (new_URL ienv key)) (\<lambda>baseUrl.
               if take 4 (protocol baseUrl) \<noteq> ''http''
               then throwE (Error ''Invalid Livepeer Gateway URL protocol'')
               else
                 bindE (fetch_call ienv
                    \<lparr>req_method = POST, req_url = href baseUrl @ ''text-to-image'',
                     req_authorization = Some ''Bearer eliza-app-img''\<rparr>) (\<lambda>response.
                 bindE (liftE (response_json response)) (\<lambda>result.
                 bindE (liftE (get_prop (Some result) ''images'')) (\<lambda>imgs.
                 bindE (liftE (if imgs = None \<or> imgs = Some JNull then Inr None
                               else get_prop imgs ''length'')) (\<lambda>len.
                 if \<not> truthy len then throwE (Error ''No images generated'')
                 else bindE (liftE (map_target imgs)) (\<lambda>images.
                   bindE (allE (first_to_fail ienv) (livepeer_image ienv key) images)
                     (\<lambda>base64Images.
                   returnE (succeeded base64Images)))))))))
              (\<lambda>err. returnE (failed (Inr err))) s = (Inr r, s')"
      by (simp add: livepeer_branch_def)
    from catch_success [OF this assms(2)] obtain baseUrl s1 where
      b: "new_URL ienv key = Inr baseUrl" "s1 = s" and
      r1: "(if take 4 (protocol baseUrl) \<noteq> ''http''
               then throwE (Error ''Invalid Livepeer Gateway URL protocol'')
               else
                 bindE (fetch_call ienv
                    \<lparr>req_method = POST, req_url = href baseUrl @ ''text-to-image'',
                     req_authorization = Some ''Bearer eliza-app-img''\<rparr>) (\<lambda>response.
                 bindE (liftE (response_json response)) (\<lambda>result.
                 bindE (liftE (get_prop (Some result) ''images'')) (\<lambda>imgs.
                 bindE (liftE (if imgs = None \<or> imgs = Some JNull then Inr None
                               else get_prop imgs ''length'')) (\<lambda>len.
                 if \<not> truthy len then throwE (Error ''No images generated'')
                 else bindE (liftE (map_target imgs)) (\<lambda>images.
                   bindE (allE (first_to_fail ienv) (livepeer_image ienv key) images)
                     (\<lambda>base64Images.
                   returnE (succeeded base64Images)))))))) s1 = (Inr r, s')"
      unfolding bindE_Inr_iff [of "liftE (new_URL ienv key)"] liftE_Inr_iff by blast
    have p: "take 4 (protocol baseUrl) = ''http''"
    proof (rule ccontr)
      assume "take 4 (protocol baseUrl) \<noteq> ''http''"
      with r1 show False by (simp add: throwE_iff)
    qed
    with r1 obtain response result imgs len s2 where
      f: "fetch ienv \<lparr>req_method = POST, req_url = href baseUrl @ ''text-to-image'',
                  req_authorization = Some ''Bearer eliza-app-img''\<rparr> = Inr response"
        "response_json response = Inr result" "get_prop (Some result) ''images'' = Inr imgs"
        "(if imgs = None \<or> imgs = Some JNull then Inr None else get_prop imgs ''length'')
          = Inr len" and
      r2: "(if \<not> truthy len then throwE (Error ''No images generated'')
                 else bindE (liftE (map_target imgs)) (\<lambda>images.
                   bindE (allE (first_to_fail ienv) (livepeer_image ienv key) images)
                     (\<lambda>base64Images.
                   returnE (succeeded base64Images)))) s2 = (Inr r, s')"
      by (simp add: fetch_call_def bindE_Inr_iff liftE_Inr_iff perform_Inr_iff) blast
    have t: "truthy len"
    proof (rule ccontr)
      assume "\<not> truthy len"
      with r2 show False by (simp add: throwE_iff)
    qed
    with r2 obtain images base64s s3 where
      "map_target imgs = Inr images"
      "allE (first_to_fail ienv) (livepeer_image ienv key) images s2 = (Inr base64s, s3)"
      "r = succeeded base64s"
      by (auto simp: bindE_Inr_iff liftE_Inr_iff returnE_iff)
    with Some b p f t show ?thesis by blast
  qed
qed

lemma livepeer_branch_entries:
  assumes "livepeer_branch ienv apiKey s = (Inr r, s')" and "success r"
  shows "\<exists>gateway images entries. apiKey = Some gateway \<and> r = succeeded entries
     \<and> entries \<noteq> [] \<and> livepeer_images ienv gateway images
     \<and> list_all2 (livepeer_entry ienv gateway) images entries"
proof -
  from livepeer_branch_run [OF assms]
  obtain key baseUrl response result imgs len images s1 s2 base64s where
    k: "apiKey = Some key" and
    u: "new_URL ienv key = Inr baseUrl" "take 4 (protocol baseUrl) = ''http''"
       "fetch ienv \<lparr>req_method = POST, req_url = href baseUrl @ ''text-to-image'',
                  req_authorization = Some ''Bearer eliza-app-img''\<rparr> = Inr response"
       "response_json response = Inr result"
       "get_prop (Some result) ''images'' = Inr imgs" and
    l: "(if imgs = None \<or> imgs = Some JNull then Inr None else get_prop imgs ''length'')
          = Inr len" "truthy len" and
    m: "map_target imgs = Inr images" and
    a: "allE (first_to_fail ienv) (livepeer_image ienv key) images s1 = (Inr base64s, s2)" and
    r: "r = succeeded base64s"
    by blast
  from m have "imgs = Some (JArr images)" by (simp add: map_target_Inr)
  with u have i: "livepeer_images ienv key images"
    unfolding livepeer_images_def posted_images_def by blast
  from length_truthy [OF l m] have n: "images \<noteq> []" .
  from allE_list_all2 [OF a, of "livepeer_entry ienv key"] livepeer_image_entry
  have e: "list_all2 (livepeer_entry ienv key) images base64s" by blast
  with n have "base64s \<noteq> []" by auto
  with k i e r show ?thesis by blast
qed

lemma generateImage_success_dispatch:
  assumes "generateImage ienv request runtime s = (Inr r, s')" and "success r"
  shows "\<exists>settings.
       getImageModelSettings ienv (imageModelProvider runtime) = Inr (Some settings)
     \<and> dispatch ienv runtime settings (resolveApiKey runtime) request s = (Inr r, s')"
  using assms
  by (auto simp: generateImage_def Let_def js_Inr_iff failed_def split: option.splits)

text \<open>
  C7, as amended. A successful result is made of what the provider of the branch sent,
  one entry for each image and in the order of the images. In the Heurist branch the
  only entry is the provider's reply, unchanged. In every other branch an entry is a
  string \<^verbatim>\<open>data:<mime>;base64,<payload>\<close>. In the Together (and Llamacloud) and
  Livepeer branches the content type is \<^verbatim>\<open>image/jpeg\<close> and the payload is the
  encoding of the bytes downloaded from the image's address; in the FAL branch the
  content type is the one the provider reports for the image and the payload is again
  the encoding of the download; these payloads may be empty. In the Venice and
  Nineteen AI branches the content type is \<^verbatim>\<open>image/png\<close> and the payload is the
  image the provider sent, which is not empty when that image is a string. In the
  default branch the content type is \<^verbatim>\<open>image/png\<close> and the payload is the
  \<^verbatim>\<open>b64_json\<close> of the image, which may be empty.
\<close>

theorem generateImage_entries:
  assumes "generateImage ienv request runtime s = (Inr r, s')" and "success r"
  shows "\<exists>settings entries.
       getImageModelSettings ienv (imageModelProvider runtime) = Inr (Some settings)
     \<and> data r = Some entries
     \<and> (imageModelProvider runtime = HEURIST \<longrightarrow>
          (\<exists>reply. heurist_reply ienv (resolveApiKey runtime) reply \<and> entries = [reply]))
     \<and> (imageModelProvider runtime = TOGETHER \<or> imageModelProvider runtime = LLAMACLOUD \<longrightarrow>
          (\<exists>images. together_images ienv (resolveApiKey runtime) settings request images
             \<and> list_all2 (together_entry ienv) images entries \<and> entries \<noteq> []))
     \<and> (imageModelProvider runtime = FAL \<longrightarrow>
          (\<exists>images. fal_images ienv (settings_name settings) images
             \<and> list_all2 (fal_entry ienv) images entries))
     \<and> (imageModelProvider runtime = VENICE \<longrightarrow>
          (\<exists>images. posted_images ienv ''https://api.venice.ai/api/v1/image/generate''
                (bearer (resolveApiKey runtime)) images
             \<and> list_all2 png_entry_of images entries))
     \<and> (imageModelProvider runtime = NINETEEN_AI \<longrightarrow>
          (\<exists>images. posted_images ienv ''https://api.nineteen.ai/v1/text-to-image''
                (bearer (resolveApiKey runtime)) images
             \<and> list_all2 png_entry_of images entries))
     \<and> (imageModelProvider runtime = LIVEPEER \<longrightarrow>
          (\<exists>gateway images. resolveApiKey runtime = Some gateway
             \<and> livepeer_images ienv gateway images
             \<and> list_all2 (livepeer_entry ienv gateway) images entries \<and> entries \<noteq> []))
     \<and> (imageModelProvider runtime
           \<notin> {HEURIST, TOGETHER, LLAMACLOUD, FAL, VENICE, NINETEEN_AI, LIVEPEER} \<longrightarrow>
          (\<exists>images. openai_images ienv runtime (settings_name settings) request images
             \<and> list_all2 default_entry images entries))"
proof -
  from generateImage_success_dispatch [OF assms] obtain settings where
    g: "getImageModelSettings ienv (imageModelProvider runtime) = Inr (Some settings)" and
    d: "dispatch ienv runtime settings (resolveApiKey runtime) request s = (Inr r, s')"
    by blast
  let ?p = "imageModelProvider runtime"
  consider (heurist) "?p = HEURIST" | (together) "?p = TOGETHER \<or> ?p = LLAMACLOUD"
    | (fal) "?p = FAL" | (venice) "?p = VENICE" | (nineteen) "?p = NINETEEN_AI"
    | (livepeer) "?p = LIVEPEER"
    | (other) "?p \<notin> {HEURIST, TOGETHER, LLAMACLOUD, FAL, VENICE, NINETEEN_AI, LIVEPEER}"
    by blast
  then show ?thesis
  proof cases
    case heurist
    with d have "heurist_branch ienv (resolveApiKey runtime) s = (Inr r, s')"
      by (simp add: dispatch_def)
    from heurist_branch_entries [OF this] g heurist show ?thesis
      by (auto simp: succeeded_def)
  next
    case together
    with d have "together_branch ienv (resolveApiKey runtime) settings request s = (Inr r, s')"
      by (auto simp: dispatch_def)
    from together_branch_entries [OF this] g together show ?thesis
      by (auto simp: succeeded_def)
  next
    case fal
    with d have "fal_branch ienv (settings_name settings) s = (Inr r, s')"
      by (simp add: dispatch_def)
    from fal_branch_entries [OF this] g fal show ?thesis
      by (auto simp: succeeded_def)
  next
    case venice
    with d have "png_branch ienv ''Venice AI'' ''https://api.venice.ai/api/v1/image/generate''
        (resolveApiKey runtime) s = (Inr r, s')"
      by (simp add: dispatch_def venice_branch_def)
    from png_branch_entries [OF this] g venice show ?thesis
      by (auto simp: succeeded_def)
  next
    case nineteen
    with d have "png_branch ienv ''Nineteen AI'' ''https://api.nineteen.ai/v1/text-to-image''
        (resolveApiKey runtime) s = (Inr r, s')"
      by (simp add: dispatch_def nineteen_branch_def)
    from png_branch_entries [OF this] g nineteen show ?thesis
      by (auto simp: succeeded_def)
  next
    case livepeer
    with d have "livepeer_branch ienv (resolveApiKey runtime) s = (Inr r, s')"
      by (simp add: dispatch_def)
    from livepeer_branch_entries [OF this assms(2)] g livepeer show ?thesis
      by (auto simp: succeeded_def)
  next
    case other
    with d have "default_branch ienv runtime (settings_name settings) request s = (Inr r, s')"
      by (auto simp: dispatch_def)
    from default_branch_entries [OF this] g other show ?thesis
      by (auto simp: succeeded_def)
  qed
qed

lemma sample_default_run:
  "generateImage sample_ienv sample_request (image_runtime (OTHER ''anthropic'')) []
     = (Inr (succeeded [JStr ''data:image/png;base64,iVBORw0KGgo='']),
        [OpenAIImagesGenerate
           \<lparr>oa_apiKey = ''sk-openai'', oa_model = ''image-model'', oa_prompt = ''a cat'',
            oa_size = ''1024x1024'', oa_n = Some 1\<rparr>])"
  by code_simp

lemma sample_heurist_run:
  "generateImage sample_ienv sample_request (image_runtime HEURIST) []
     = (Inr (succeeded [JStr ''https://heurist.example/out.png'']),
        [Fetch \<lparr>req_method = POST, req_url = ''http://sequencer.heurist.xyz/submit_job'',
                req_authorization = Some ''Bearer heurist-key''\<rparr>])"
  by code_simp

lemma sample_venice_run:
  "generateImage sample_ienv sample_request (image_runtime VENICE) []
     = (Inr (succeeded [JStr ''data:image/png;base64,iVBORw0KGgo='']),
        [Fetch \<lparr>req_method = POST, req_url = ''https://api.venice.ai/api/v1/image/generate'',
                req_authorization = Some ''Bearer null''\<rparr>])"
  by code_simp

lemma sample_together_run:
  "generateImage sample_ienv sample_request (image_runtime TOGETHER) []
     = (Inr (succeeded [JStr ''data:image/jpeg;base64,'']),
        [TogetherImagesCreate
           \<lparr>tg_apiKey = None, tg_model = ''image-model'', tg_prompt = ''a cat'',
            tg_width = 999, tg_height = 999, tg_steps = 4, tg_n = Some 1\<rparr>,
         Fetch \<lparr>req_method = GET, req_url = ''https://together.example/1.jpg'',
                req_authorization = None\<rparr>])"
  by code_simp

theorem generateImage_entries_witness:
  "generateImage sample_ienv sample_request (image_runtime (OTHER ''anthropic'')) []
     = (Inr (succeeded [JStr ''data:image/png;base64,iVBORw0KGgo='']),
        [OpenAIImagesGenerate
           \<lparr>oa_apiKey = ''sk-openai'', oa_model = ''image-model'', oa_prompt = ''a cat'',
            oa_size = ''1024x1024'', oa_n = Some 1\<rparr>])
   \<and> success (succeeded [JStr ''data:image/png;base64,iVBORw0KGgo=''])
   \<and> default_entry (JObj [(''b64_json'', JStr ''iVBORw0KGgo='')])
         (JStr ''data:image/png;base64,iVBORw0KGgo='')
   \<and> generateImage sample_ienv sample_request (image_runtime HEURIST) []
     = (Inr (succeeded [JStr ''https://heurist.example/out.png'']),
        [Fetch \<lparr>req_method = POST, req_url = ''http://sequencer.heurist.xyz/submit_job'',
                req_authorization = Some ''Bearer heurist-key''\<rparr>])
   \<and> success (succeeded [JStr ''https://heurist.example/out.png''])
   \<and> heurist_reply sample_ienv (Some ''heurist-key'') (JStr ''https://heurist.example/out.png'')
   \<and> generateImage sample_ienv sample_request (image_runtime VENICE) []
     = (Inr (succeeded [JStr ''data:image/png;base64,iVBORw0KGgo='']),
        [Fetch \<lparr>req_method = POST, req_url = ''https://api.venice.ai/api/v1/image/generate'',
                req_authorization = Some ''Bearer null''\<rparr>])
   \<and> png_entry_of (JStr ''iVBORw0KGgo='') (JStr ''data:image/png;base64,iVBORw0KGgo='')
   \<and> matches_data_url (JStr ''data:image/png;base64,iVBORw0KGgo='')
   \<and> generateImage sample_ienv sample_request (image_runtime TOGETHER) []
     = (Inr (succeeded [JStr ''data:image/jpeg;base64,'']),
        [TogetherImagesCreate
           \<lparr>tg_apiKey = None, tg_model = ''image-model'', tg_prompt = ''a cat'',
            tg_width = 999, tg_height = 999, tg_steps = 4, tg_n = Some 1\<rparr>,
         Fetch \<lparr>req_method = GET, req_url = ''https://together.example/1.jpg'',
                req_authorization = None\<rparr>])
   \<and> together_entry sample_ienv (JObj [(''url'', JStr ''https://together.example/1.jpg'')])
         (JStr ''data:image/jpeg;base64,'')"
proof -
  have ok: "success (succeeded entries)" for entries
    by (simp add: succeeded_def)
  have d: "data (succeeded entries) = Some entries" for entries
    by (simp add: succeeded_def)
  have p: "imageModelProvider (image_runtime q) = q"
    "resolveApiKey (image_runtime HEURIST) = Some ''heurist-key''"
    "resolveApiKey (image_runtime VENICE) = None"
    "resolveApiKey (image_runtime TOGETHER) = None" for q
    by (simp_all add: image_runtime_def resolveApiKey_def)
  have o: "openai_images sample_ienv runtime model request images
      \<Longrightarrow> images = [JObj [(''b64_json'', JStr ''iVBORw0KGgo='')]]" for runtime model request images
    by (auto simp: openai_images_def sample_ienv_def get_prop_def)
  have h: "heurist_reply sample_ienv apiKey reply \<longleftrightarrow> reply = JStr ''https://heurist.example/out.png''"
    for apiKey reply
    by (auto simp: heurist_reply_def sample_ienv_def ok_response_def)
  have v: "posted_images sample_ienv ''https://api.venice.ai/api/v1/image/generate'' a images
      \<Longrightarrow> images = [JStr ''iVBORw0KGgo='']" for a images
    by (auto simp: posted_images_def sample_ienv_def ok_response_def get_prop_def)
  have t: "together_images sample_ienv apiKey settings request images
      \<Longrightarrow> images = [JObj [(''url'', JStr ''https://together.example/1.jpg'')]]"
    for apiKey settings request images
    by (auto simp: together_images_def sample_ienv_def get_prop_def)
  from generateImage_entries [OF sample_default_run ok]
  have 1: "default_entry (JObj [(''b64_json'', JStr ''iVBORw0KGgo='')])
         (JStr ''data:image/png;base64,iVBORw0KGgo='')"
    by (auto simp: p d dest!: o)
  from generateImage_entries [OF sample_heurist_run ok]
  have 2: "heurist_reply sample_ienv (Some ''heurist-key'')
      (JStr ''https://heurist.example/out.png'')"
    by (auto simp: p d)
  from generateImage_entries [OF sample_venice_run ok]
  have 3: "png_entry_of (JStr ''iVBORw0KGgo='') (JStr ''data:image/png;base64,iVBORw0KGgo='')"
    by (auto simp: p d dest!: v)
  then have 4: "matches_data_url (JStr ''data:image/png;base64,iVBORw0KGgo='')"
    unfolding png_entry_of_def by blast
  from generateImage_entries [OF sample_together_run ok]
  have 5: "together_entry sample_ienv (JObj [(''url'', JStr ''https://together.example/1.jpg'')])
         (JStr ''data:image/jpeg;base64,'')"
    by (auto simp: p d dest!: t)
  from sample_default_run sample_heurist_run sample_venice_run sample_together_run ok 1 2 3 4 5
  show ?thesis by simp
qed

text \<open>
  C7, the claim as stated fails. With Heurist as the image provider the only entry of the
  successful result is the provider's reply, here the URL of the image, which is no data
  URL. With Together as the provider and an image whose download has no bytes the entry
  is a data URL with an empty payload; so it is with Livepeer and with FAL. With Venice
  as the provider and an image that is an empty array, and in the default branch with an
  empty \<^verbatim>\<open>b64_json\<close>, the payload is empty as well.
\<close>

lemma no_payload_no_match:
  assumes "CHR '';'' \<notin> set mime"
  shows "\<not> matches_data_url (data_url mime [])"
proof
  assume "matches_data_url (data_url mime [])"
  then obtain m payload where ne: "payload \<noteq> []"
    and eq: "mime @ '';base64,'' = m @ '';base64,'' @ payload"
    by (auto simp: matches_data_url_def data_url_def)
  from eq have "length (mime @ '';base64,'') = length (m @ '';base64,'' @ payload)"
    by (rule arg_cong)
  with ne have l: "length m < length mime"
    by (cases payload) simp_all
  from eq have "(mime @ '';base64,'') ! length m = (m @ '';base64,'' @ payload) ! length m"
    by (rule arg_cong)
  with l have "mime ! length m = CHR '';''"
    by (simp add: nth_append)
  with l assms show False
    by (metis nth_mem)
qed

theorem generateImage_entries_counterexample:
  "fst (generateImage sample_ienv sample_request (image_runtime HEURIST) [])
     = Inr (succeeded [JStr ''https://heurist.example/out.png''])
   \<and> \<not> matches_data_url (JStr ''https://heurist.example/out.png'')
   \<and> fst (generateImage sample_ienv sample_request (image_runtime TOGETHER) [])
     = Inr (succeeded [JStr ''data:image/jpeg;base64,''])
   \<and> \<not> matches_data_url (JStr ''data:image/jpeg;base64,'')
   \<and> fst (generateImage empty_payload_ienv sample_request livepeer_runtime [])
     = Inr (succeeded [JStr ''data:image/jpeg;base64,''])
   \<and> fst (generateImage empty_payload_ienv sample_request (image_runtime FAL) [])
     = Inr (succeeded [JStr ''data:image/png;base64,''])
   \<and> fst (generateImage empty_payload_ienv sample_request (image_runtime VENICE) [])
     = Inr (succeeded [JStr ''data:image/png;base64,''])
   \<and> fst (generateImage empty_payload_ienv sample_request (image_runtime (OTHER ''anthropic'')) [])
     = Inr (succeeded [JStr ''data:image/png;base64,''])
   \<and> \<not> matches_data_url (JStr ''data:image/png;base64,'')"
proof -
  have h: "fst (generateImage sample_ienv sample_request (image_runtime HEURIST) [])
     = Inr (succeeded [JStr ''https://heurist.example/out.png''])"
    by code_simp
  have t: "fst (generateImage sample_ienv sample_request (image_runtime TOGETHER) [])
     = Inr (succeeded [JStr ''data:image/jpeg;base64,''])"
    by code_simp
  have l: "fst (generateImage empty_payload_ienv sample_request livepeer_runtime [])
     = Inr (succeeded [JStr ''data:image/jpeg;base64,''])"
    by code_simp
  have f: "fst (generateImage empty_payload_ienv sample_request (image_runtime FAL) [])
     = Inr (succeeded [JStr ''data:image/png;base64,''])"
    by code_simp
  have v: "fst (generateImage empty_payload_ienv sample_request (image_runtime VENICE) [])
     = Inr (succeeded [JStr ''data:image/png;base64,''])"
    by code_simp
  have o: "fst (generateImage empty_payload_ienv sample_request (image_runtime (OTHER ''anthropic'')) [])
     = Inr (succeeded [JStr ''data:image/png;base64,''])"
    by code_simp
  have n: "\<not> matches_data_url (JStr ''https://heurist.example/out.png'')"
    by (simp add: matches_data_url_def data_url_def)
  have j: "\<not> matches_data_url (JStr ''data:image/jpeg;base64,'')"
    using no_payload_no_match [of "''image/jpeg''"] by (simp add: data_url_def)
  have g: "\<not> matches_data_url (JStr ''data:image/png;base64,'')"
    using no_payload_no_match [of "''image/png''"] by (simp add: data_url_def)
  from h t l f v o n j g show ?thesis by simp
qed



lemma catch_as_result:
  "\<exists>r. fst (catchE m (\<lambda>err. returnE (failed (Inr err))) s) = Inr r"
  "snd (catchE m (\<lambda>err. returnE (failed (Inr err))) s) = snd (m s)"
  by (auto simp: catchE_def returnE_def split: prod.splits sum.splits)

text \<open>
  Inside the dispatcher every failure becomes a result: once the settings lookup has
  returned, \<^verbatim>\<open>generateImage\<close> does not raise, and an error raised by a branch is the
  \<open>error\<close> of a result whose \<open>success\<close> is false.
\<close>

lemma generateImage_catches:
  assumes "getImageModelSettings ienv (imageModelProvider runtime) = Inr found"
  shows "\<exists>r. fst (generateImage ienv request runtime s) = Inr r"
  using assms catch_as_result(1)
  by (cases found) (auto simp: generateImage_def Let_def bindE_def liftE_def returnE_def)

lemma generateImage_failure:
  assumes "getImageModelSettings ienv (imageModelProvider runtime) = Inr (Some settings)"
    and "fst (dispatch ienv runtime settings (resolveApiKey runtime) request s) = Inl err"
  shows "fst (generateImage ienv request runtime s) = Inr (failed (Inr err))"
  using assms
  by (auto simp: generateImage_def Let_def bindE_def liftE_def returnE_def catchE_def
      split: prod.splits sum.splits)

lemma generateImage_no_settings:
  assumes "getImageModelSettings ienv (imageModelProvider runtime) = Inr None"
  shows "generateImage ienv request runtime s = (Inr (failed (Inl ''No model settings available'')), s)"
  using assms by (simp add: generateImage_def bindE_def liftE_def returnE_def)



text \<open>
  C6. The claim says that \<^verbatim>\<open>generateImage\<close> never raises to its caller. The lookup
  of the model settings on line 831 stands before the \<^verbatim>\<open>try\<close> of line 872, so an
  error it raises leaves the function; and in \<^verbatim>\<open>generation.ts\<close> the identifier
  \<^verbatim>\<open>getImageModelSettings\<close> is unbound, so the lookup raises \<^verbatim>\<open>ReferenceError\<close>
  on every call, before any provider is contacted.
\<close>

theorem generateImage_raises:
  "getImageModelSettings ienv (imageModelProvider runtime) = unbound ''getImageModelSettings''
   \<Longrightarrow> generateImage ienv request runtime s
         = (Inl (ReferenceError ''getImageModelSettings is not defined''), s)"
  by (simp add: generateImage_def unbound_def bindE_def liftE_def)

theorem generateImage_raises_witness:
  "getImageModelSettings as_written_ienv (imageModelProvider (image_runtime OPENAI))
     = unbound ''getImageModelSettings''
   \<and> generateImage as_written_ienv sample_request (image_runtime OPENAI) []
       = (Inl (ReferenceError ''getImageModelSettings is not defined''), [])"
proof -
  have h: "getImageModelSettings as_written_ienv (imageModelProvider (image_runtime OPENAI))
     = unbound ''getImageModelSettings''"
    by (simp add: as_written_ienv_def)
  show ?thesis
    using h generateImage_raises [OF h, of sample_request "[]"] by simp
qed

text \<open>
  C9, as amended. When the image provider is the text provider, the credential is the
  runtime's token. Otherwise, for Heurist, Together, FAL, OpenAI, Venice and Livepeer it
  is that provider's own setting, whether set or not; for a provider outside these six
  and other than Nineteen AI it is the first setting that is not \<^verbatim>\<open>null\<close> among
  \<open>fallback_keys\<close>, in that order.
\<close>

theorem resolveApiKey_cases:
  "(imageModelProvider runtime = modelProvider runtime \<longrightarrow> resolveApiKey runtime = token runtime)
   \<and> (imageModelProvider runtime \<noteq> modelProvider runtime \<longrightarrow>
        (imageModelProvider runtime = HEURIST
           \<longrightarrow> resolveApiKey runtime = getSetting runtime ''HEURIST_API_KEY'')
      \<and> (imageModelProvider runtime = TOGETHER
           \<longrightarrow> resolveApiKey runtime = getSetting runtime ''TOGETHER_API_KEY'')
      \<and> (imageModelProvider runtime = FAL
           \<longrightarrow> resolveApiKey runtime = getSetting runtime ''FAL_API_KEY'')
      \<and> (imageModelProvider runtime = OPENAI
           \<longrightarrow> resolveApiKey runtime = getSetting runtime ''OPENAI_API_KEY'')
      \<and> (imageModelProvider runtime = VENICE
           \<longrightarrow> resolveApiKey runtime = getSetting runtime ''VENICE_API_KEY'')
      \<and> (imageModelProvider runtime = LIVEPEER
           \<longrightarrow> resolveApiKey runtime = getSetting runtime ''LIVEPEER_GATEWAY_URL'')
      \<and> (imageModelProvider runtime \<notin> {HEURIST, TOGETHER, FAL, OPENAI, VENICE, LIVEPEER, NINETEEN_AI}
           \<longrightarrow> resolveApiKey runtime = first_set (map (getSetting runtime) fallback_keys)))"
proof -
  have chain: "nullish a (nullish b (nullish c (nullish d (nullish e (nullish f g)))))
      = first_set [a, b, c, d, e, f, g]" for a b c d e f g :: "string option"
    by (cases a; cases b; cases c; cases d; cases e; cases f; cases g) (simp_all add: nullish_def)
  show ?thesis
    by (cases "imageModelProvider runtime")
      (auto simp: resolveApiKey_def fallback_keys_def chain)
qed

theorem resolveApiKey_cases_witness:
  "resolveApiKey (image_runtime OPENAI) = Some ''sk-text''
   \<and> resolveApiKey ((image_runtime OPENAI)\<lparr>modelProvider := HEURIST\<rparr>) = Some ''sk-openai''
   \<and> resolveApiKey (image_runtime HEURIST) = Some ''heurist-key''
   \<and> resolveApiKey (image_runtime TOGETHER) = None
   \<and> resolveApiKey (image_runtime FAL) = None
   \<and> resolveApiKey (image_runtime VENICE) = None
   \<and> resolveApiKey (image_runtime LIVEPEER) = None
   \<and> resolveApiKey (image_runtime LLAMACLOUD) = Some ''heurist-key''"
proof -
  have s: "getSetting (image_runtime p) = (\<lambda>key. if key = ''HEURIST_API_KEY'' then Some ''heurist-key''
               else if key = ''OPENAI_API_KEY'' then Some ''sk-openai'' else None)"
    "imageModelProvider (image_runtime p) = p" "modelProvider (image_runtime p) = OPENAI"
    "token (image_runtime p) = Some ''sk-text''" for p
    by (simp_all add: image_runtime_def)
  show ?thesis
    using resolveApiKey_cases [of "image_runtime OPENAI"]
      resolveApiKey_cases [of "(image_runtime OPENAI)\<lparr>modelProvider := HEURIST\<rparr>"]
      resolveApiKey_cases [of "image_runtime HEURIST"]
      resolveApiKey_cases [of "image_runtime TOGETHER"]
      resolveApiKey_cases [of "image_runtime FAL"]
      resolveApiKey_cases [of "image_runtime VENICE"]
      resolveApiKey_cases [of "image_runtime LIVEPEER"]
      resolveApiKey_cases [of "image_runtime LLAMACLOUD"]
    by (simp add: s fallback_keys_def)
qed

text \<open>
  C9, the claim as stated fails. Together is the image provider and has no credential of
  its own, the Heurist key is set and is the first of the alternatives, and yet no
  credential is resolved: there is no fallback for a provider that the \<^verbatim>\<open>switch\<close>
  names.
\<close>

theorem resolveApiKey_counterexample:
  "imageModelProvider (image_runtime TOGETHER) \<noteq> modelProvider (image_runtime TOGETHER)
   \<and> getSetting (image_runtime TOGETHER) ''TOGETHER_API_KEY'' = None
   \<and> first_set (map (getSetting (image_runtime TOGETHER)) fallback_keys) = Some ''heurist-key''
   \<and> resolveApiKey (image_runtime TOGETHER) = None"
  by (simp add: image_runtime_def fallback_keys_def resolveApiKey_def)

section \<open>Properties of the caption generator\<close>

lemma strip_left_decomp: "\<exists>cs. set cs \<subseteq> set ws \<and> s = concat cs @ strip_left ws s"
proof (induction ws s rule: strip_left.induct)
  case (1 ws s)
  show ?case
  proof (cases "find (\<lambda>w. w \<noteq> [] \<and> take (length w) s = w) ws")
    case None
    then have "strip_left ws s = s" by simp
    then have "set [] \<subseteq> set ws \<and> s = concat [] @ strip_left ws s" by simp
    then show ?thesis by blast
  next
    case (Some w)
    then have w: "w \<in> set ws" "take (length w) s = w"
      by (auto simp: find_Some_iff)
    from Some have st: "strip_left ws s = strip_left ws (drop (length w) s)" by simp
    from "1.IH" [OF Some] obtain cs where
      cs: "set cs \<subseteq> set ws" "drop (length w) s = concat cs @ strip_left ws (drop (length w) s)"
      by blast
    have "s = take (length w) s @ drop (length w) s" by simp
    with w(2) cs(2) st have "s = concat (w # cs) @ strip_left ws s"
      by simp
    moreover from w(1) cs(1) have "set (w # cs) \<subseteq> set ws" by simp
    ultimately show ?thesis by blast
  qed
qed

lemma strip_left_no_prefix:
  "w \<in> set ws \<Longrightarrow> w \<noteq> [] \<Longrightarrow> take (length w) (strip_left ws s) \<noteq> w"
proof (induction ws s rule: strip_left.induct)
  case (1 ws s)
  show ?case
  proof (cases "find (\<lambda>w. w \<noteq> [] \<and> take (length w) s = w) ws")
    case None
    then have "strip_left ws s = s" by simp
    moreover from None "1.prems" have "take (length w) s \<noteq> w"
      by (auto simp: find_None_iff)
    ultimately show ?thesis by simp
  next
    case (Some v)
    with "1.IH" [OF Some "1.prems"] show ?thesis by simp
  qed
qed

lemma spaces_not_empty: "w \<in> set spaces \<Longrightarrow> w \<noteq> []"
  by (auto simp: spaces_def)

lemma white_run_rev:
  assumes "set cs \<subseteq> set (map rev spaces)"
  shows "white_run (rev (concat cs))"
proof -
  have "rev (concat cs) = concat (map rev (rev cs))"
    by (simp add: rev_concat)
  moreover from assms have "set (map rev (rev cs)) \<subseteq> set spaces"
    by auto
  ultimately show ?thesis
    unfolding white_run_def by blast
qed

lemma take_prefix_append:
  assumes "take (length w) t = w"
  shows "take (length w) (t @ x) = w"
proof -
  from assms have "length (take (length w) t) = length w" by simp
  then have "length w \<le> length t" by simp
  with assms show ?thesis by simp
qed

lemma trim_trimmed_of: "trimmed_of s (trim s)"
proof -
  let ?u = "strip_left spaces s"
  let ?v = "strip_left (map rev spaces) (rev ?u)"
  have t: "trim s = rev ?v" by (simp add: trim_def)
  obtain cs where cs: "set cs \<subseteq> set spaces" "s = concat cs @ ?u"
    using strip_left_decomp [of spaces s] by blast
  obtain ds where ds: "set ds \<subseteq> set (map rev spaces)" "rev ?u = concat ds @ ?v"
    using strip_left_decomp [of "map rev spaces" "rev ?u"] by blast
  from ds(2) have "rev (rev ?u) = rev (concat ds @ ?v)" by (rule arg_cong)
  then have u: "?u = trim s @ rev (concat ds)"
    by (simp add: t)
  have a: "white_run (concat cs)"
    using cs(1) unfolding white_run_def by blast
  have b: "white_run (rev (concat ds))"
    using ds(1) by (rule white_run_rev)
  from cs(2) u have "s = concat cs @ trim s @ rev (concat ds)" by simp
  with a b have dec: "\<exists>a b. s = a @ trim s @ b \<and> white_run a \<and> white_run b" by blast
  have fore: "\<not> list_ex (\<lambda>w. take (length w) (trim s) = w) spaces"
  proof
    assume "list_ex (\<lambda>w. take (length w) (trim s) = w) spaces"
    then obtain w where w: "w \<in> set spaces" "take (length w) (trim s) = w"
      by (auto simp: list_ex_iff)
    from take_prefix_append [OF w(2), of "rev (concat ds)"] u
    have "take (length w) ?u = w" by simp
    with strip_left_no_prefix [OF w(1) spaces_not_empty [OF w(1)], of s] show False by simp
  qed
  have rear: "\<not> list_ex (\<lambda>w. take (length w) (rev (trim s)) = rev w) spaces"
  proof
    assume "list_ex (\<lambda>w. take (length w) (rev (trim s)) = rev w) spaces"
    then obtain w where w: "w \<in> set spaces" "take (length w) (rev (trim s)) = rev w"
      by (auto simp: list_ex_iff)
    from w(1) have m: "rev w \<in> set (map rev spaces)" "rev w \<noteq> []"
      using spaces_not_empty by auto
    from w(2) have "take (length (rev w)) ?v = rev w" by (simp add: t)
    with strip_left_no_prefix [OF m, of "rev ?u"] show False by simp
  qed
  from dec fore rear show ?thesis by (simp add: trimmed_of_def)
qed

text \<open>
  C8. Without an image description service \<^verbatim>\<open>generateCaption\<close> raises at once and
  makes no outbound call. With a service it calls \<^verbatim>\<open>describeImage\<close> exactly once;
  an error of the service reaches the caller unchanged, and a description is returned
  with the white space around its title and around its description removed: each is
  the service's string between two runs of white space, and neither begins nor ends
  with white space.
\<close>

theorem generateCaption_contract:
  "(getService runtime IMAGE_DESCRIPTION = None \<longrightarrow>
      generateCaption imageUrl runtime s
        = (Inl (Error ''Image description service not found''), s))
   \<and> (getService runtime IMAGE_DESCRIPTION = Some service \<longrightarrow>
        snd (generateCaption imageUrl runtime s) = s @ [DescribeImage imageUrl]
      \<and> (\<forall>e. describeImage service imageUrl = Inl e
            \<longrightarrow> fst (generateCaption imageUrl runtime s) = Inl e)
      \<and> (\<forall>resp. describeImage service imageUrl = Inr resp
            \<longrightarrow> fst (generateCaption imageUrl runtime s)
                  = Inr \<lparr>title = trim (title resp), description = trim (description resp)\<rparr>
              \<and> trimmed_of (title resp) (trim (title resp))
              \<and> trimmed_of (description resp) (trim (description resp))))"
  by (auto simp: generateCaption_def throwE_def bindE_def perform_def returnE_def
      trim_trimmed_of split: sum.splits)

theorem generateCaption_contract_witness:
  "generateCaption ''https://example.com/cat.png'' plain_runtime []
     = (Inl (Error ''Image description service not found''), [])
   \<and> generateCaption ''https://example.com/cat.png'' caption_runtime []
     = (Inr \<lparr>title = ''A cat'', description = ''A cat on a mat.''\<rparr>,
        [DescribeImage ''https://example.com/cat.png''])
   \<and> trimmed_of ([CHR 0xC2, CHR 0xA0] @ '' A cat'' @ [CHR 0xE2, CHR 0x80, CHR 0x89]) ''A cat''
   \<and> trimmed_of (''A cat on a mat.'' @ [CHR 0x0A]) ''A cat on a mat.''
   \<and> generateCaption ''https://example.com/dog.png'' caption_runtime []
     = (Inl (Error ''Failed to fetch image''), [DescribeImage ''https://example.com/dog.png''])"
proof -
  have n: "getService plain_runtime IMAGE_DESCRIPTION = None"
    by (simp add: plain_runtime_def)
  have y: "getService caption_runtime IMAGE_DESCRIPTION = Some sample_service"
    by (simp add: caption_runtime_def)
  have cat: "describeImage sample_service ''https://example.com/cat.png''
      = Inr \<lparr>title = [CHR 0xC2, CHR 0xA0] @ '' A cat'' @ [CHR 0xE2, CHR 0x80, CHR 0x89],
             description = ''A cat on a mat.'' @ [CHR 0x0A]\<rparr>"
    by (simp add: sample_service_def)
  have dog: "describeImage sample_service ''https://example.com/dog.png''
      = Inl (Error ''Failed to fetch image'')"
    by (simp add: sample_service_def)
  have t: "trim ([CHR 0xC2, CHR 0xA0] @ '' A cat'' @ [CHR 0xE2, CHR 0x80, CHR 0x89]) = ''A cat''"
    "trim (''A cat on a mat.'' @ [CHR 0x0A]) = ''A cat on a mat.''"
    by (simp_all add: trim_def spaces_def strip_left.simps)
  from generateCaption_contract [where runtime = plain_runtime
        and imageUrl = "''https://example.com/cat.png''" and s = "[]"] n
  have 1: "generateCaption ''https://example.com/cat.png'' plain_runtime []
     = (Inl (Error ''Image description service not found''), [])"
    by simp
  from generateCaption_contract [where runtime = caption_runtime and service = sample_service
        and imageUrl = "''https://example.com/cat.png''" and s = "[]"] y cat
  have 2: "generateCaption ''https://example.com/cat.png'' caption_runtime []
     = (Inr \<lparr>title = trim ([CHR 0xC2, CHR 0xA0] @ '' A cat'' @ [CHR 0xE2, CHR 0x80, CHR 0x89]),
             description = trim (''A cat on a mat.'' @ [CHR 0x0A])\<rparr>,
        [DescribeImage ''https://example.com/cat.png''])"
    and 3: "trimmed_of ([CHR 0xC2, CHR 0xA0] @ '' A cat'' @ [CHR 0xE2, CHR 0x80, CHR 0x89])
        (trim ([CHR 0xC2, CHR 0xA0] @ '' A cat'' @ [CHR 0xE2, CHR 0x80, CHR 0x89]))"
    and 4: "trimmed_of (''A cat on a mat.'' @ [CHR 0x0A]) (trim (''A cat on a mat.'' @ [CHR 0x0A]))"
    by (simp_all only: prod_eq_iff fst_conv snd_conv simp_thms sum.inject ImageDescription.simps
        option.inject append_Nil)
  from generateCaption_contract [where runtime = caption_runtime and service = sample_service
        and imageUrl = "''https://example.com/dog.png''" and s = "[]"] y dog
  have 5: "generateCaption ''https://example.com/dog.png'' caption_runtime []
     = (Inl (Error ''Failed to fetch image''), [DescribeImage ''https://example.com/dog.png''])"
    by (simp add: prod_eq_iff)
  from 1 2 3 4 5 show ?thesis by (simp only: t simp_thms)
qed

section \<open>Properties of the wallet key\<close>

lemma read_first_run:
  "read_first runtime key1 key2 s =
     (Inr (nullish (getSetting runtime key1) (getSetting runtime key2)),
      s @ (if getSetting runtime key1 = None then [GetSetting key1, GetSetting key2]
           else [GetSetting key1]))"
  by (simp add: read_first_def read_setting_def bindE_def perform_def returnE_def nullish_def
      split: option.splits)

lemma throwE_apply: "throwE e s = (Inl e, s)"
  by (simp add: throwE_def)

lemma returnE_apply: "returnE x s = (Inr x, s)"
  by (simp add: returnE_def)

lemma bind_liftE:
  "bindE (liftE r) f s = (case r of Inl e \<Rightarrow> (Inl e, s) | Inr x \<Rightarrow> f x s)"
  by (simp add: bindE_def liftE_def split: sum.splits)

lemma bind_read_first:
  "bindE (read_first runtime key1 key2) f s =
     f (nullish (getSetting runtime key1) (getSetting runtime key2))
       (s @ (if getSetting runtime key1 = None then [GetSetting key1, GetSetting key2]
             else [GetSetting key1]))"
  by (simp add: bindE_def read_first_run)

lemma private_attempts:
  "catchE
     (bindE (liftE (bs58_decode wenv key)) (\<lambda>secretKey.
      bindE (liftE (fromSecretKey wenv secretKey)) (\<lambda>kp.
        returnE \<lparr>keypair = Some kp, publicKey = None\<rparr>)))
     (\<lambda>e.
        catchE
          (bindE (liftE (fromSecretKey wenv (base64_decode wenv key))) (\<lambda>kp.
             returnE \<lparr>keypair = Some kp, publicKey = None\<rparr>))
          (\<lambda>e2. throwE (Error ''Invalid private key format''))) s
   = ((case base58_attempt wenv key of
         Inr kp \<Rightarrow> Inr \<lparr>keypair = Some kp, publicKey = None\<rparr>
       | Inl e \<Rightarrow>
           (case base64_attempt wenv key of
              Inr kp \<Rightarrow> Inr \<lparr>keypair = Some kp, publicKey = None\<rparr>
            | Inl e2 \<Rightarrow> Inl (Error ''Invalid private key format''))), s)"
  by (simp add: catchE_def bindE_def liftE_def returnE_def throwE_def base58_attempt_def
      base64_attempt_def split: sum.splits)

text \<open>
  C10, as amended. With \<open>requirePrivateKey\<close> the function reads
  \<^verbatim>\<open>SOLANA_PRIVATE_KEY\<close> and, if that is \<^verbatim>\<open>null\<close>, \<^verbatim>\<open>WALLET_PRIVATE_KEY\<close>, and
  no other setting. It raises the not-found error exactly when the string it selected is
  \<^verbatim>\<open>null\<close> or empty; otherwise it returns the keypair of the base58 attempt when
  that succeeds, the keypair of the base64 attempt when the base58 attempt raised and
  that succeeds, and raises the format error exactly when both raised; a result holds a
  keypair and no public key. Without \<open>requirePrivateKey\<close> it reads the two public-key
  settings only, raises the not-found error exactly when the selected string is
  \<^verbatim>\<open>null\<close> or empty, and otherwise returns what \<^verbatim>\<open>new PublicKey\<close> builds, as a
  result with a public key and no keypair, or raises the error of \<^verbatim>\<open>new PublicKey\<close>.
\<close>

theorem getWalletKey_cases:
  "(requirePrivateKey \<longrightarrow>
      (\<exists>reads. snd (getWalletKey wenv runtime requirePrivateKey s) = s @ reads
         \<and> set reads \<subseteq> private_key_reads)
    \<and> fst (getWalletKey wenv runtime requirePrivateKey s)
        = (case nullish (getSetting runtime ''SOLANA_PRIVATE_KEY'')
                  (getSetting runtime ''WALLET_PRIVATE_KEY'') of
             None \<Rightarrow> Inl (Error ''Private key not found in settings'')
           | Some key \<Rightarrow>
               if key = [] then Inl (Error ''Private key not found in settings'')
               else
                 (case base58_attempt wenv key of
                    Inr kp \<Rightarrow> Inr \<lparr>keypair = Some kp, publicKey = None\<rparr>
                  | Inl e \<Rightarrow>
                      (case base64_attempt wenv key of
                         Inr kp \<Rightarrow> Inr \<lparr>keypair = Some kp, publicKey = None\<rparr>
                       | Inl e2 \<Rightarrow> Inl (Error ''Invalid private key format'')))))
   \<and> (\<not> requirePrivateKey \<longrightarrow>
      (\<exists>reads. snd (getWalletKey wenv runtime requirePrivateKey s) = s @ reads
         \<and> set reads \<subseteq> public_key_reads)
    \<and> fst (getWalletKey wenv runtime requirePrivateKey s)
        = (case nullish (getSetting runtime ''SOLANA_PUBLIC_KEY'')
                  (getSetting runtime ''WALLET_PUBLIC_KEY'') of
             None \<Rightarrow> Inl not_found_error
           | Some key \<Rightarrow>
               if key = [] then Inl not_found_error
               else
                 (case new_PublicKey wenv key of
                    Inr pk \<Rightarrow> Inr \<lparr>keypair = None, publicKey = Some pk\<rparr>
                  | Inl e \<Rightarrow> Inl e)))"
proof (intro conjI impI)
  assume r: requirePrivateKey
  let ?k = "nullish (getSetting runtime ''SOLANA_PRIVATE_KEY'')
                  (getSetting runtime ''WALLET_PRIVATE_KEY'')"
  let ?reads = "if getSetting runtime ''SOLANA_PRIVATE_KEY'' = None
       then [GetSetting ''SOLANA_PRIVATE_KEY'', GetSetting ''WALLET_PRIVATE_KEY'']
       else [GetSetting ''SOLANA_PRIVATE_KEY'']"
  have run: "getWalletKey wenv runtime requirePrivateKey s =
      ((case ?k of
          None \<Rightarrow> Inl (Error ''Private key not found in settings'')
        | Some key \<Rightarrow>
            if key = [] then Inl (Error ''Private key not found in settings'')
            else
              (case base58_attempt wenv key of
                 Inr kp \<Rightarrow> Inr \<lparr>keypair = Some kp, publicKey = None\<rparr>
               | Inl e \<Rightarrow>
                   (case base64_attempt wenv key of
                      Inr kp \<Rightarrow> Inr \<lparr>keypair = Some kp, publicKey = None\<rparr>
                    | Inl e2 \<Rightarrow> Inl (Error ''Invalid private key format'')))), s @ ?reads)"
  proof (cases ?k)
    case None
    with r show ?thesis
      by (simp add: getWalletKey_def bind_read_first falsy_def throwE_apply)
  next
    case (Some key)
    with r show ?thesis
      by (cases "key = []")
        (simp_all add: getWalletKey_def bind_read_first falsy_def throwE_apply Let_def
          private_attempts)
  qed
  show "\<exists>reads. snd (getWalletKey wenv runtime requirePrivateKey s) = s @ reads
         \<and> set reads \<subseteq> private_key_reads"
    by (rule exI [of _ ?reads]) (simp add: run private_key_reads_def)
  show "fst (getWalletKey wenv runtime requirePrivateKey s)
        = (case ?k of
             None \<Rightarrow> Inl (Error ''Private key not found in settings'')
           | Some key \<Rightarrow>
               if key = [] then Inl (Error ''Private key not found in settings'')
               else
                 (case base58_attempt wenv key of
                    Inr kp \<Rightarrow> Inr \<lparr>keypair = Some kp, publicKey = None\<rparr>
                  | Inl e \<Rightarrow>
                      (case base64_attempt wenv key of
                         Inr kp \<Rightarrow> Inr \<lparr>keypair = Some kp, publicKey = None\<rparr>
                       | Inl e2 \<Rightarrow> Inl (Error ''Invalid private key format''))))"
    by (simp add: run)
next
  assume r: "\<not> requirePrivateKey"
  let ?k = "nullish (getSetting runtime ''SOLANA_PUBLIC_KEY'')
                  (getSetting runtime ''WALLET_PUBLIC_KEY'')"
  let ?reads = "if getSetting runtime ''SOLANA_PUBLIC_KEY'' = None
       then [GetSetting ''SOLANA_PUBLIC_KEY'', GetSetting ''WALLET_PUBLIC_KEY'']
       else [GetSetting ''SOLANA_PUBLIC_KEY'']"
  have run: "getWalletKey wenv runtime requirePrivateKey s =
      ((case ?k of
             None \<Rightarrow> Inl not_found_error
           | Some key \<Rightarrow>
               if key = [] then Inl not_found_error
               else
                 (case new_PublicKey wenv key of
                    Inr pk \<Rightarrow> Inr \<lparr>keypair = None, publicKey = Some pk\<rparr>
                  | Inl e \<Rightarrow> Inl e)), s @ ?reads)"
  proof (cases ?k)
    case None
    with r show ?thesis
      by (simp add: getWalletKey_def bind_read_first falsy_def throwE_apply not_found_error_def)
  next
    case (Some key)
    with r show ?thesis
      by (cases "key = []"; cases "new_PublicKey wenv key")
        (simp_all add: getWalletKey_def bind_read_first falsy_def throwE_apply Let_def
          bind_liftE returnE_apply not_found_error_def)
  qed
  show "\<exists>reads. snd (getWalletKey wenv runtime requirePrivateKey s) = s @ reads
         \<and> set reads \<subseteq> public_key_reads"
    by (rule exI [of _ ?reads]) (simp add: run public_key_reads_def)
  show "fst (getWalletKey wenv runtime requirePrivateKey s)
        = (case ?k of
             None \<Rightarrow> Inl not_found_error
           | Some key \<Rightarrow>
               if key = [] then Inl not_found_error
               else
                 (case new_PublicKey wenv key of
                    Inr pk \<Rightarrow> Inr \<lparr>keypair = None, publicKey = Some pk\<rparr>
                  | Inl e \<Rightarrow> Inl e))"
    by (simp add: run)
qed


lemma sample_attempts:
  "base58_attempt sample_wenv ''4Nd1m'' = Inr (Keypair ''secret-a'')"
  "base58_attempt sample_wenv ''c2VjcmV0LWI='' = Inl (Error ''Non-base58 character'')"
  "base64_attempt sample_wenv ''c2VjcmV0LWI='' = Inr (Keypair ''secret-b'')"
  "base58_attempt sample_wenv ''@@@'' = Inl (Error ''Non-base58 character'')"
  "base64_attempt sample_wenv ''@@@'' = Inl (Error ''bad secret key size'')"
  by (simp_all add: base58_attempt_def base64_attempt_def sample_wenv_def)

lemma sample_public_keys:
  "new_PublicKey sample_wenv ''11111111111111111111111111111111''
     = Inr (PublicKey ''11111111111111111111111111111111'')"
  "new_PublicKey sample_wenv ''not-a-key'' = Inl (Error ''Invalid public key input'')"
  by (simp_all add: sample_wenv_def numeral_eq_Suc)

lemma wallet_settings: "getSetting (wallet_runtime settings) = settings"
  by (simp add: wallet_runtime_def)

theorem getWalletKey_cases_witness:
  "fst (getWalletKey sample_wenv (wallet_runtime [''SOLANA_PRIVATE_KEY'' \<mapsto> ''4Nd1m'']) True [])
     = Inr \<lparr>keypair = Some (Keypair ''secret-a''), publicKey = None\<rparr>
   \<and> fst (getWalletKey sample_wenv
          (wallet_runtime [''WALLET_PRIVATE_KEY'' \<mapsto> ''c2VjcmV0LWI='']) True [])
     = Inr \<lparr>keypair = Some (Keypair ''secret-b''), publicKey = None\<rparr>
   \<and> fst (getWalletKey sample_wenv (wallet_runtime [''SOLANA_PRIVATE_KEY'' \<mapsto> ''@@@'']) True [])
     = Inl (Error ''Invalid private key format'')
   \<and> fst (getWalletKey sample_wenv (wallet_runtime Map.empty) True [])
     = Inl (Error ''Private key not found in settings'')
   \<and> fst (getWalletKey sample_wenv
          (wallet_runtime [''SOLANA_PUBLIC_KEY'' \<mapsto> ''11111111111111111111111111111111''])
          False [])
     = Inr \<lparr>keypair = None, publicKey = Some (PublicKey ''11111111111111111111111111111111'')\<rparr>
   \<and> fst (getWalletKey sample_wenv (wallet_runtime Map.empty) False []) = Inl not_found_error"
  using getWalletKey_cases [of True sample_wenv
      "wallet_runtime [''SOLANA_PRIVATE_KEY'' \<mapsto> ''4Nd1m'']" "[]"]
    getWalletKey_cases [of True sample_wenv
      "wallet_runtime [''WALLET_PRIVATE_KEY'' \<mapsto> ''c2VjcmV0LWI='']" "[]"]
    getWalletKey_cases [of True sample_wenv
      "wallet_runtime [''SOLANA_PRIVATE_KEY'' \<mapsto> ''@@@'']" "[]"]
    getWalletKey_cases [of True sample_wenv "wallet_runtime Map.empty" "[]"]
    getWalletKey_cases [of False sample_wenv
      "wallet_runtime [''SOLANA_PUBLIC_KEY'' \<mapsto> ''11111111111111111111111111111111'']" "[]"]
    getWalletKey_cases [of False sample_wenv "wallet_runtime Map.empty" "[]"]
  by (simp add: wallet_settings nullish_def sample_attempts sample_public_keys)

text \<open>
  C10, the claim as stated fails: a public-key setting is present, and the call without
  \<open>requirePrivateKey\<close> raises all the same, because \<^verbatim>\<open>new PublicKey\<close> rejects the
  string and nothing catches its error.
\<close>

theorem getWalletKey_counterexample:
  "getSetting (wallet_runtime [''SOLANA_PUBLIC_KEY'' \<mapsto> ''not-a-key'']) ''SOLANA_PUBLIC_KEY''
     = Some ''not-a-key''
   \<and> getWalletKey sample_wenv (wallet_runtime [''SOLANA_PUBLIC_KEY'' \<mapsto> ''not-a-key'']) False []
     = (Inl (Error ''Invalid public key input''), [GetSetting ''SOLANA_PUBLIC_KEY''])"
  by (simp add: wallet_settings getWalletKey_def bind_read_first falsy_def nullish_def
      bind_liftE sample_public_keys Let_def)

end
